theory Spec2Isabelle
  imports Complex_Main "HOL-Library.Monad_Syntax"
begin

section \<open>The Node.js demo application\<close>

text \<open>
  The program is one Express application (the repository's \<^verbatim>\<open>index.js\<close>):
  \<^verbatim>\<open>
  const express = require('express');
  const app = express();
  const PORT = process.env.PORT || 3000;

  app.use(express.json());

  app.get('/', (req, res) => {
    res.json({
      message: 'Welcome to Node.js Demo App!',
      status: 'success',
      timestamp: new Date().toISOString()
    });
  });

  app.get('/health', (req, res) => {
    res.json({
      status: 'healthy',
      uptime: process.uptime()
    });
  });

  app.listen(PORT, () => { console.log(`Server is running on port ${PORT}`); });
  \<close>
  Its own code is the constant \<open>PORT\<close>, the two handlers and the order in which the
  middleware and the routes are registered. Everything else it does is done by the
  JavaScript language, the Node.js runtime and the Express framework; the parts of
  those that the program calls are modelled below from their specifications
  (ECMA-262 for \<open>||\<close>, \<open>Date\<close> and \<open>toISOString\<close>; the Node.js and Express 4 API
  descriptions for \<open>process.uptime\<close>, routing and \<open>express.json\<close>), each in a
  subsection of its own that says what is modelled and what is left as a parameter.
\<close>

subsection \<open>JavaScript values and the operator \<open>||\<close>\<close>

text \<open>
  The values line 3 of the program can produce: \<open>process.env.PORT\<close> is \<open>undefined\<close>
  or a string, and the literal \<open>3000\<close> is a number. \<open>a || b\<close> is \<open>a\<close> when \<open>a\<close> is
  truthy and \<open>b\<close> otherwise; \<open>undefined\<close>, the empty string and \<open>0\<close> are falsy, every
  other string (also \<open>"0"\<close> and \<open>" "\<close>) is truthy.
\<close>

datatype js_value = Undefined | Str string | Num int

fun truthy :: "js_value \<Rightarrow> bool" where
  "truthy Undefined = False"
| "truthy (Str s) = (s \<noteq> [])"
| "truthy (Num n) = (n \<noteq> 0)"

definition js_or :: "js_value \<Rightarrow> js_value \<Rightarrow> js_value" where
  "js_or a b = (if truthy a then a else b)"

text \<open>\<open>process.env\<close>: a dictionary from variable names to strings.\<close>

type_synonym environ = "string \<rightharpoonup> string"

definition env_get :: "environ \<Rightarrow> string \<Rightarrow> js_value" where
  "env_get env k = (case env k of None \<Rightarrow> Undefined | Some s \<Rightarrow> Str s)"

text \<open>\<^verbatim>\<open>const PORT = process.env.PORT || 3000;\<close>\<close>

definition PORT :: "environ \<Rightarrow> js_value" where
  "PORT env = js_or (env_get env ''PORT'') (Num 3000)"

subsection \<open>ECMAScript time values\<close>

text \<open>
  A time value is a number of milliseconds since 1970-01-01T00:00:00Z. The functions
  below are those of ECMA-262, section "Time Values and Time Range" and following,
  under their names there. \<open>floor (a / b)\<close> is \<open>a div b\<close> and \<open>a modulo b\<close> is
  \<open>a mod b\<close> on \<open>int\<close>.
\<close>

definition msPerDay :: int where "msPerDay = 86400000"
definition msPerHour :: int where "msPerHour = 3600000"
definition msPerMinute :: int where "msPerMinute = 60000"
definition msPerSecond :: int where "msPerSecond = 1000"

definition Day :: "int \<Rightarrow> int" where
  "Day t = t div msPerDay"

definition TimeWithinDay :: "int \<Rightarrow> int" where
  "TimeWithinDay t = t mod msPerDay"

definition DaysInYear :: "int \<Rightarrow> int" where
  "DaysInYear y =
     (if y mod 4 \<noteq> 0 then 365
      else if y mod 100 \<noteq> 0 then 366
      else if y mod 400 \<noteq> 0 then 365
      else 366)"

definition DayFromYear :: "int \<Rightarrow> int" where
  "DayFromYear y =
     365 * (y - 1970) + (y - 1969) div 4 - (y - 1901) div 100 + (y - 1601) div 400"

text \<open>
  ECMA-262 defines \<open>YearFromTime t\<close> as the largest \<open>y\<close> with
  \<open>msPerDay * DayFromYear y \<le> t\<close>. The executable form takes the estimate
  \<open>1970 + floor (400 * Day t / 146097)\<close> (146097 days make 400 years) and corrects
  it by at most one year; lemma \<open>YearFromTime_correct\<close> below proves that the result
  is the year ECMA-262 defines.
\<close>

definition YearFromTime :: "int \<Rightarrow> int" where
  "YearFromTime t =
     (let d = Day t; y = 1970 + (400 * d) div 146097 in
      if d < DayFromYear y then y - 1
      else if DayFromYear (y + 1) \<le> d then y + 1
      else y)"

definition InLeapYear :: "int \<Rightarrow> int" where
  "InLeapYear t = (if DaysInYear (YearFromTime t) = 366 then 1 else 0)"

definition DayWithinYear :: "int \<Rightarrow> int" where
  "DayWithinYear t = Day t - DayFromYear (YearFromTime t)"

definition MonthFromTime :: "int \<Rightarrow> int" where
  "MonthFromTime t =
     (let d = DayWithinYear t; l = InLeapYear t in
      if d < 31 then 0
      else if d < 59 + l then 1
      else if d < 90 + l then 2
      else if d < 120 + l then 3
      else if d < 151 + l then 4
      else if d < 181 + l then 5
      else if d < 212 + l then 6
      else if d < 243 + l then 7
      else if d < 273 + l then 8
      else if d < 304 + l then 9
      else if d < 334 + l then 10
      else 11)"

definition DateFromTime :: "int \<Rightarrow> int" where
  "DateFromTime t =
     (let d = DayWithinYear t; l = InLeapYear t; m = MonthFromTime t in
      if m = 0 then d + 1
      else if m = 1 then d - 30
      else if m = 2 then d - 58 - l
      else if m = 3 then d - 89 - l
      else if m = 4 then d - 119 - l
      else if m = 5 then d - 150 - l
      else if m = 6 then d - 180 - l
      else if m = 7 then d - 211 - l
      else if m = 8 then d - 242 - l
      else if m = 9 then d - 272 - l
      else if m = 10 then d - 303 - l
      else d - 333 - l)"

definition HourFromTime :: "int \<Rightarrow> int" where
  "HourFromTime t = (t div msPerHour) mod 24"

definition MinFromTime :: "int \<Rightarrow> int" where
  "MinFromTime t = (t div msPerMinute) mod 60"

definition SecFromTime :: "int \<Rightarrow> int" where
  "SecFromTime t = (t div msPerSecond) mod 60"

definition msFromTime :: "int \<Rightarrow> int" where
  "msFromTime t = t mod msPerSecond"

text \<open>
  \<open>MakeTime\<close>, \<open>MakeDay\<close> and \<open>MakeDate\<close> build a time value from its fields (months
  count from 0). \<open>TimeClip\<close> refuses a value outside the range of \<open>Date\<close>,
  8.64e15 ms on either side of the epoch: the result is \<open>NaN\<close>, here \<open>None\<close>.
\<close>

definition MakeTime :: "int \<Rightarrow> int \<Rightarrow> int \<Rightarrow> int \<Rightarrow> int" where
  "MakeTime h m s ms = h * msPerHour + m * msPerMinute + s * msPerSecond + ms"

definition DaysBeforeMonth :: "int \<Rightarrow> int \<Rightarrow> int" where
  "DaysBeforeMonth y m =
     (let l = (if DaysInYear y = 366 then 1 else 0) in
      if m = 0 then 0
      else if m = 1 then 31
      else if m = 2 then 59 + l
      else if m = 3 then 90 + l
      else if m = 4 then 120 + l
      else if m = 5 then 151 + l
      else if m = 6 then 181 + l
      else if m = 7 then 212 + l
      else if m = 8 then 243 + l
      else if m = 9 then 273 + l
      else if m = 10 then 304 + l
      else 334 + l)"

definition DaysInMonth :: "int \<Rightarrow> int \<Rightarrow> int" where
  "DaysInMonth y m =
     (if m = 1 then (if DaysInYear y = 366 then 29 else 28)
      else if m = 3 \<or> m = 5 \<or> m = 8 \<or> m = 10 then 30
      else 31)"

definition MakeDay :: "int \<Rightarrow> int \<Rightarrow> int \<Rightarrow> int" where
  "MakeDay y m dt = DayFromYear y + DaysBeforeMonth y m + dt - 1"

definition MakeDate :: "int \<Rightarrow> int \<Rightarrow> int" where
  "MakeDate dy tm = dy * msPerDay + tm"

definition TimeClip :: "int \<Rightarrow> int option" where
  "TimeClip t = (if \<bar>t\<bar> > 8640000000000000 then None else Some t)"

subsection \<open>\<open>Date.prototype.toISOString\<close>\<close>

text \<open>
  \<open>toISOString\<close> throws a \<open>RangeError\<close> on an invalid date and otherwise prints
  \<open>YYYY-MM-DDTHH:mm:ss.sssZ\<close> in UTC; a year outside 0..9999 is printed in the
  expanded form, a sign and six digits.
\<close>

datatype js_exception = RangeError

definition digit_char :: "int \<Rightarrow> char" where
  "digit_char d = ''0123456789'' ! nat d"

fun pad :: "nat \<Rightarrow> int \<Rightarrow> string" where
  "pad 0 n = []"
| "pad (Suc k) n = pad k (n div 10) @ [digit_char (n mod 10)]"

definition year_string :: "int \<Rightarrow> string" where
  "year_string y =
     (if 0 \<le> y \<and> y \<le> 9999 then pad 4 y
      else (if y < 0 then ''-'' else ''+'') @ pad 6 \<bar>y\<bar>)"

definition toISOString :: "int option \<Rightarrow> js_exception + string" where
  "toISOString tv =
     (case tv of
        None \<Rightarrow> Inl RangeError
      | Some t \<Rightarrow>
          Inr (year_string (YearFromTime t) @ ''-'' @ pad 2 (MonthFromTime t + 1) @ ''-'' @
               pad 2 (DateFromTime t) @ ''T'' @ pad 2 (HourFromTime t) @ '':'' @
               pad 2 (MinFromTime t) @ '':'' @ pad 2 (SecFromTime t) @ ''.'' @
               pad 3 (msFromTime t) @ ''Z''))"

subsection \<open>Reading an ISO-8601 timestamp\<close>

text \<open>
  The specification asks that the timestamp "parses as valid ISO-8601". The reader
  below accepts exactly the complete UTC form \<open>YYYY-MM-DDTHH:mm:ss.sssZ\<close> (or a
  signed six-digit year, not \<open>-000000\<close>), checks that the fields name a real calendar
  date and time of day, and returns the instant in milliseconds since the epoch.
\<close>

definition is_digit :: "char \<Rightarrow> bool" where
  "is_digit c = (c \<in> set ''0123456789'')"

definition digit_value :: "char \<Rightarrow> int" where
  "digit_value c = of_char c - 48"

definition number :: "string \<Rightarrow> int" where
  "number cs = foldl (\<lambda>acc c. 10 * acc + digit_value c) 0 cs"

definition read_digits :: "nat \<Rightarrow> string \<Rightarrow> (int \<times> string) option" where
  "read_digits k s =
     (if k \<le> length s \<and> list_all is_digit (take k s)
      then Some (number (take k s), drop k s) else None)"

definition expect :: "char \<Rightarrow> string \<Rightarrow> string option" where
  "expect c s = (case s of [] \<Rightarrow> None | x # r \<Rightarrow> if x = c then Some r else None)"

definition read_year :: "string \<Rightarrow> (int \<times> string) option" where
  "read_year s =
     (case s of
        [] \<Rightarrow> None
      | x # r \<Rightarrow>
          if x = CHR ''+'' then read_digits 6 r
          else if x = CHR ''-'' then
            (case read_digits 6 r of
               None \<Rightarrow> None
             | Some (y, r') \<Rightarrow> if y = 0 then None else Some (- y, r'))
          else read_digits 4 s)"

definition parse_iso8601 :: "string \<Rightarrow> int option" where
  "parse_iso8601 s0 = do {
     (y, s1) \<leftarrow> read_year s0;
     s2 \<leftarrow> expect CHR ''-'' s1;
     (mo, s3) \<leftarrow> read_digits 2 s2;
     s4 \<leftarrow> expect CHR ''-'' s3;
     (d, s5) \<leftarrow> read_digits 2 s4;
     s6 \<leftarrow> expect CHR ''T'' s5;
     (h, s7) \<leftarrow> read_digits 2 s6;
     s8 \<leftarrow> expect CHR '':'' s7;
     (mi, s9) \<leftarrow> read_digits 2 s8;
     s10 \<leftarrow> expect CHR '':'' s9;
     (sec, s11) \<leftarrow> read_digits 2 s10;
     s12 \<leftarrow> expect CHR ''.'' s11;
     (ms, s13) \<leftarrow> read_digits 3 s12;
     s14 \<leftarrow> expect CHR ''Z'' s13;
     if s14 = [] \<and> 1 \<le> mo \<and> mo \<le> 12 \<and> 1 \<le> d \<and> d \<le> DaysInMonth y (mo - 1) \<and>
        h \<le> 23 \<and> mi \<le> 59 \<and> sec \<le> 59
     then TimeClip (MakeDate (MakeDay y (mo - 1) d) (MakeTime h mi sec ms))
     else None
   }"

subsection \<open>The process and its clocks\<close>

text \<open>
  Two clocks of the host are read by the program: the system (wall) clock, which
  \<open>new Date()\<close> reads, in milliseconds since the epoch, and the monotonic clock, which
  \<open>process.uptime()\<close> reads, in nanoseconds. The process holds two values of its own:
  the reading of the monotonic clock taken when the process started (kept by the
  runtime, never assigned by the program) and the value handed to \<open>app.listen\<close>.
\<close>

record world =
  wall_clock :: int
  mono_clock :: int
  process_start :: int
  listen_port :: js_value

text \<open>
  \<open>new Date()\<close> holds the current time, clipped to the range of time values.
  \<open>process.uptime()\<close> is the number of seconds, fractions included, that the process
  has been running. JavaScript rounds the quotient to the nearest double; the model
  keeps the exact quotient.
\<close>

definition new_Date :: "world \<Rightarrow> int option" where
  "new_Date w = TimeClip (wall_clock w)"

definition process_uptime :: "world \<Rightarrow> real" where
  "process_uptime w = real_of_int (mono_clock w - process_start w) / 1000000000"

subsection \<open>Requests and responses\<close>

text \<open>
  A request as Express presents it to middleware and handlers. \<open>req_entity\<close> is
  \<open>None\<close> when the request has no body (neither \<open>Content-Length\<close> nor
  \<open>Transfer-Encoding\<close>); otherwise it gives the media type and the charset parameter
  of \<open>Content-Type\<close> (lower case, empty when absent) and what reading the body
  yields: the decoded text, or the status of the failure (413 for a body over the
  100kb limit, 415 for an unsupported encoding, 400 for an aborted or damaged body).
  \<open>req_fresh_for req obj\<close> says whether the request's cache validators
  (\<open>If-None-Match\<close>, \<open>Cache-Control\<close>) make a response with the body \<open>obj\<close>
  fresh: Express compares them with the entity tag it computes from the body. It is
  constantly false for a request without validators and constantly true for
  \<open>If-None-Match: *\<close>. \<open>req_headers\<close> holds the remaining header fields.
\<close>

datatype json = JString string | JNumber real

type_synonym json_object = "(string \<times> json) list"

datatype read_result = Read_failed nat | Read_text string

record entity =
  media_type :: string
  charset :: string
  delivered :: read_result

record request =
  req_method :: string
  req_path :: string
  req_query :: string
  req_headers :: "(string \<times> string) list"
  req_fresh_for :: "json_object \<Rightarrow> bool"
  req_entity :: "entity option"

text \<open>
  What a handler hands to the framework: \<open>res.json obj\<close> with the status code of
  \<open>res\<close>, which is 200 unless the handler sets it.
\<close>

record reply =
  reply_status :: nat
  reply_object :: json_object

definition res_json :: "json_object \<Rightarrow> reply" where
  "res_json obj = \<lparr>reply_status = 200, reply_object = obj\<rparr>"

text \<open>What goes out on the wire: a status and a body.\<close>

datatype payload = Json json_object | Allow "string list" | ErrorPage | Empty

record response =
  res_status :: nat
  res_body :: payload

text \<open>The argument of \<open>next(err)\<close>: an error with an HTTP status, or an exception.\<close>

datatype failure = Http_error nat | Thrown js_exception

subsection \<open>The handlers\<close>

text \<open>
  The two handlers of the program. Each takes the request and the state and returns
  what it passes to \<open>res.json\<close> (or the exception it throws) and the state it leaves.
\<close>

type_synonym handler = "request \<Rightarrow> world \<Rightarrow> (js_exception + reply) \<times> world"

definition root_handler :: handler where
  "root_handler req w =
     (case toISOString (new_Date w) of
        Inl e \<Rightarrow> (Inl e, w)
      | Inr ts \<Rightarrow>
          (Inr (res_json
             [(''message'', JString ''Welcome to Node.js Demo App!''),
              (''status'', JString ''success''),
              (''timestamp'', JString ts)]), w))"

definition health_handler :: handler where
  "health_handler req w =
     (Inr (res_json
        [(''status'', JString ''healthy''),
         (''uptime'', JNumber (process_uptime w))]), w)"

subsection \<open>\<open>express.json()\<close>\<close>

text \<open>
  The body parser with its default options (\<open>type: application/json\<close>,
  \<open>strict: true\<close>). It skips a request without a body and a body of another media
  type; it refuses a charset that does not start with \<open>utf-\<close> (415), passes on the
  failure of reading the body, accepts an empty body, and otherwise parses the text:
  in strict mode the first character after white space must open an object or an
  array, and \<open>JSON.parse\<close> must accept the text; either failure is a 400. The
  result is \<open>None\<close> for \<open>next()\<close> and the error for \<open>next(err)\<close>. \<open>JSON.parse\<close>
  itself is a parameter: \<open>JSON_parses s\<close> says whether it accepts \<open>s\<close>.
\<close>

definition is_json_space :: "char \<Rightarrow> bool" where
  "is_json_space c = (c = CHR 0x20 \<or> c = CHR 0x09 \<or> c = CHR 0x0A \<or> c = CHR 0x0D)"

definition first_char :: "string \<Rightarrow> char option" where
  "first_char s = (case dropWhile is_json_space s of [] \<Rightarrow> None | c # r \<Rightarrow> Some c)"

definition express_json :: "(string \<Rightarrow> bool) \<Rightarrow> request \<Rightarrow> failure option" where
  "express_json JSON_parses req =
     (case req_entity req of
        None \<Rightarrow> None
      | Some e \<Rightarrow>
          if media_type e \<noteq> ''application/json'' then None
          else if take 4 (if charset e = [] then ''utf-8'' else charset e) \<noteq> ''utf-''
            then Some (Http_error 415)
          else
            (case delivered e of
               Read_failed st \<Rightarrow> Some (Http_error st)
             | Read_text s \<Rightarrow>
                 if s = [] then None
                 else if first_char s \<noteq> Some CHR ''{'' \<and> first_char s \<noteq> Some CHR ''[''
                   then Some (Http_error 400)
                 else if JSON_parses s then None
                 else Some (Http_error 400)))"

subsection \<open>The Express router\<close>

text \<open>
  An application is a stack of layers in the order of registration: \<open>app.use fn\<close>
  adds a middleware for every path, \<open>app.get path fn\<close> a route for the method
  \<open>get\<close>. With the default settings a route path is compared ignoring letter case
  and one trailing slash. A route for \<open>get\<close> also serves \<open>HEAD\<close>.
\<close>

datatype layer = Use "request \<Rightarrow> failure option" | Route string string handler

definition express :: "layer list" where
  "express = []"

definition app_use :: "(request \<Rightarrow> failure option) \<Rightarrow> layer list \<Rightarrow> layer list" where
  "app_use fn stack = stack @ [Use fn]"

definition app_get :: "string \<Rightarrow> handler \<Rightarrow> layer list \<Rightarrow> layer list" where
  "app_get p fn stack = stack @ [Route p ''get'' fn]"

definition lower_char :: "char \<Rightarrow> char" where
  "lower_char c =
     (let n = (of_char c :: nat) in if 65 \<le> n \<and> n \<le> 90 then char_of (n + 32) else c)"

definition upper_char :: "char \<Rightarrow> char" where
  "upper_char c =
     (let n = (of_char c :: nat) in if 97 \<le> n \<and> n \<le> 122 then char_of (n - 32) else c)"

definition match_path :: "string \<Rightarrow> string \<Rightarrow> bool" where
  "match_path route p =
     (let r = map lower_char route; q = map lower_char p in
      if r \<noteq> [] \<and> last r = CHR ''/'' then q = r \<or> q = butlast r
      else q = r \<or> q = r @ ''/'')"

definition handles_method :: "string \<Rightarrow> string \<Rightarrow> bool" where
  "handles_method rm m =
     (let n = map lower_char m in
      (if n = ''head'' \<and> rm \<noteq> ''head'' then ''get'' else n) = rm)"

definition route_options :: "string \<Rightarrow> string list" where
  "route_options rm =
     map (map upper_char) (rm # (if rm = ''get'' then [''head''] else []))"

text \<open>
  \<open>res.send\<close>, through which \<open>res.json\<close> sends: a fresh response to a \<open>GET\<close> or
  \<open>HEAD\<close> request becomes 304 without a body, and a \<open>HEAD\<close> request gets no body.
\<close>

definition send :: "request \<Rightarrow> reply \<Rightarrow> response" where
  "send req r =
     (let fresh = ((req_method req = ''GET'' \<or> req_method req = ''HEAD'') \<and>
                   200 \<le> reply_status r \<and> reply_status r < 300 \<and>
                   req_fresh_for req (reply_object r));
          st = (if fresh then 304 else reply_status r)
      in \<lparr>res_status = st,
          res_body = (if st = 304 \<or> req_method req = ''HEAD'' then Empty
                      else Json (reply_object r))\<rparr>)"

text \<open>
  What happens when no layer answers: the error's status (500 when it has none in
  400..599), the automatic answer to \<open>OPTIONS\<close> when routes matched the path, and
  404 otherwise. The error page is the body, except for a \<open>HEAD\<close> request, which
  gets no body.
\<close>

fun final_status :: "failure \<Rightarrow> nat" where
  "final_status (Http_error st) = (if 400 \<le> st \<and> st < 600 then st else 500)"
| "final_status (Thrown e) = 500"

definition error_body :: "request \<Rightarrow> payload" where
  "error_body req = (if req_method req = ''HEAD'' then Empty else ErrorPage)"

definition finalhandler :: "failure option \<Rightarrow> string list \<Rightarrow> request \<Rightarrow> response" where
  "finalhandler err opts req =
     (case err of
        Some e \<Rightarrow> \<lparr>res_status = final_status e, res_body = error_body req\<rparr>
      | None \<Rightarrow>
          if req_method req = ''OPTIONS'' \<and> opts \<noteq> []
          then \<lparr>res_status = 200, res_body = Allow opts\<rparr>
          else \<lparr>res_status = 404, res_body = error_body req\<rparr>)"

text \<open>
  The router walks the stack. A middleware with three parameters is skipped while an
  error is pending; a route is skipped when its path does not match, when an error
  is pending, or when it does not handle the method (an \<open>OPTIONS\<close> request then
  collects the route's methods). An exception thrown by a handler becomes the
  pending error.
\<close>

fun handle :: "layer list \<Rightarrow> failure option \<Rightarrow> string list \<Rightarrow> request \<Rightarrow> world
    \<Rightarrow> response \<times> world" where
  "handle [] err opts req w = (finalhandler err opts req, w)"
| "handle (Use fn # stack) err opts req w =
     (case err of
        Some e \<Rightarrow> handle stack err opts req w
      | None \<Rightarrow> handle stack (fn req) opts req w)"
| "handle (Route p rm fn # stack) err opts req w =
     (if \<not> match_path p (req_path req) then handle stack err opts req w
      else if err \<noteq> None then handle stack err opts req w
      else if handles_method rm (req_method req) then
        (case fn req w of
           (Inr r, w') \<Rightarrow> (send req r, w')
         | (Inl e, w') \<Rightarrow> handle stack (Some (Thrown e)) opts req w')
      else if req_method req = ''OPTIONS''
        then handle stack err (opts @ route_options rm) req w
      else handle stack err opts req w)"

subsection \<open>The application\<close>

text \<open>
  Lines 2 to 22 of the program: the application, its middleware and its two routes,
  in the order of the source.
\<close>

definition app :: "(string \<Rightarrow> bool) \<Rightarrow> layer list" where
  "app JSON_parses =
     app_get ''/health'' health_handler
       (app_get ''/'' root_handler
         (app_use (express_json JSON_parses) express))"

definition serve :: "(string \<Rightarrow> bool) \<Rightarrow> request \<Rightarrow> world \<Rightarrow> response \<times> world" where
  "serve JSON_parses req w = handle (app JSON_parses) None [] req w"

text \<open>
  The life of a process: it starts with the environment and the two clock
  readings of that moment, and then sees clock ticks (the monotonic clock advances by
  a duration in nanoseconds, the wall clock shows a new reading) and requests.
\<close>

definition startup :: "environ \<Rightarrow> int \<Rightarrow> int \<Rightarrow> world" where
  "startup env t0 wall =
     \<lparr>wall_clock = wall, mono_clock = t0, process_start = t0, listen_port = PORT env\<rparr>"

datatype event = Tick nat int | Request request

fun step :: "(string \<Rightarrow> bool) \<Rightarrow> event \<Rightarrow> world \<Rightarrow> world" where
  "step JSON_parses (Tick d wall) w =
     w\<lparr>mono_clock := mono_clock w + int d, wall_clock := wall\<rparr>"
| "step JSON_parses (Request req) w = snd (serve JSON_parses req w)"

fun run :: "(string \<Rightarrow> bool) \<Rightarrow> event list \<Rightarrow> world \<Rightarrow> world" where
  "run JSON_parses [] w = w"
| "run JSON_parses (e # es) w = run JSON_parses es (step JSON_parses e w)"

fun elapsed :: "event list \<Rightarrow> int" where
  "elapsed [] = 0"
| "elapsed (Tick d wall # es) = int d + elapsed es"
| "elapsed (Request req # es) = elapsed es"

subsection \<open>A term of the specification, and a sample request\<close>

text \<open>
  "Parses as a port number", for the claim about the listen port: a non-empty
  string of decimal digits whose value is at most 65535.
\<close>

definition parses_as_port :: "string \<Rightarrow> bool" where
  "parses_as_port s = (s \<noteq> [] \<and> list_all is_digit s \<and> number s \<le> 65535)"

text \<open>
  A request with a method and a path and nothing else: no query, no header, no
  cache validator, no body.
\<close>

definition plain_request :: "string \<Rightarrow> string \<Rightarrow> request" where
  "plain_request m p =
     \<lparr>req_method = m, req_path = p, req_query = [], req_headers = [],
      req_fresh_for = (\<lambda>obj. False), req_entity = None\<rparr>"

section \<open>Properties of the time functions\<close>

subsection \<open>The year of a time value\<close>

text \<open>
  \<open>DayFromYear\<close> stays within two days of 365.2425 days a year, so the estimate in
  \<open>YearFromTime\<close> is at most one year off, and the corrected year is the one whose
  days include \<open>Day t\<close>: the largest \<open>y\<close> with \<open>DayFromYear y \<le> Day t\<close>.
\<close>

lemma div_bounds:
  fixes a c :: int
  assumes "0 < c"
  shows "c * (a div c) \<le> a \<and> a < c * (a div c) + c"
proof -
  have "a = c * (a div c) + a mod c" by simp
  moreover have "0 \<le> a mod c" "a mod c < c" using assms by simp_all
  ultimately show ?thesis by linarith
qed

lemma DayFromYear_bounds:
  "146097 * (y - 1970) - 600 \<le> 400 * DayFromYear y \<and>
   400 * DayFromYear y \<le> 146097 * (y - 1970) + 600"
proof -
  define a where "a = (y - 1969) div 4"
  define b where "b = (y - 1901) div 100"
  define c where "c = (y - 1601) div 400"
  have A: "4 * a \<le> y - 1969 \<and> y - 1969 < 4 * a + 4"
    unfolding a_def by (rule div_bounds) simp
  have B: "100 * b \<le> y - 1901 \<and> y - 1901 < 100 * b + 100"
    unfolding b_def by (rule div_bounds) simp
  have C: "400 * c \<le> y - 1601 \<and> y - 1601 < 400 * c + 400"
    unfolding c_def by (rule div_bounds) simp
  have D: "DayFromYear y = 365 * (y - 1970) + a - b + c"
    by (simp add: DayFromYear_def a_def b_def c_def)
  have "146097 * (y - 1970) - 600 \<le> 400 * DayFromYear y"
    unfolding D using A [THEN conjunct2] B [THEN conjunct1] C [THEN conjunct2] by simp
  moreover have "400 * DayFromYear y \<le> 146097 * (y - 1970) + 600"
    unfolding D using A [THEN conjunct1] B [THEN conjunct2] C [THEN conjunct1] by simp
  ultimately show ?thesis by simp
qed

lemma succ_div:
  fixes a c :: int
  assumes "1 < c"
  shows "(a + 1) div c = a div c + (if (a + 1) mod c = 0 then 1 else 0)"
proof -
  define q where "q = a div c"
  define r where "r = a mod c"
  have a: "a = c * q + r" and r: "0 \<le> r" "r < c"
    using assms by (simp_all add: q_def r_def)
  show ?thesis
  proof (cases "r + 1 = c")
    case True
    then have "a + 1 = c * (q + 1)" using a by (simp add: algebra_simps)
    then show ?thesis using assms by (simp add: q_def)
  next
    case False
    then have lt: "r + 1 < c" using r by simp
    have e: "a + 1 = c * q + (r + 1)" using a by simp
    have "(a + 1) div c = q"
      unfolding e using lt r assms by (simp add: div_pos_pos_trivial)
    moreover have "(a + 1) mod c = r + 1"
      unfolding e using lt r assms by (simp add: mod_pos_pos_trivial)
    ultimately show ?thesis using r by (simp add: q_def)
  qed
qed

lemma DayFromYear_step: "DayFromYear (y + 1) = DayFromYear y + DaysInYear y"
proof -
  have m4: "(y - 1968) mod 4 = 0 \<longleftrightarrow> y mod 4 = 0"
    using mod_diff_eq [of y 4 1968] by simp
  have m100: "(y - 1900) mod 100 = 0 \<longleftrightarrow> y mod 100 = 0"
    using mod_diff_eq [of y 100 1900] by simp
  have m400: "(y - 1600) mod 400 = 0 \<longleftrightarrow> y mod 400 = 0"
    using mod_diff_eq [of y 400 1600] by simp
  have i1: "y mod 400 = 0 \<Longrightarrow> y mod 100 = 0"
    using mod_mod_cancel [of 100 400 y] by simp
  have i2: "y mod 100 = 0 \<Longrightarrow> y mod 4 = 0"
    using mod_mod_cancel [of 4 100 y] by simp
  have a: "(y + 1 - 1969) div 4 = (y - 1969) div 4 + (if y mod 4 = 0 then 1 else 0)"
    using succ_div [of 4 "y - 1969"] m4 by (simp add: algebra_simps)
  have b: "(y + 1 - 1901) div 100 = (y - 1901) div 100 + (if y mod 100 = 0 then 1 else 0)"
    using succ_div [of 100 "y - 1901"] m100 by (simp add: algebra_simps)
  have c: "(y + 1 - 1601) div 400 = (y - 1601) div 400 + (if y mod 400 = 0 then 1 else 0)"
    using succ_div [of 400 "y - 1601"] m400 by (simp add: algebra_simps)
  show ?thesis
    unfolding DayFromYear_def DaysInYear_def a b c using i1 i2 by auto
qed

lemma YearFromTime_correct:
  "DayFromYear (YearFromTime t) \<le> Day t \<and> Day t < DayFromYear (YearFromTime t + 1)"
proof -
  define d where "d = Day t"
  define q where "q = (400 * d) div 146097"
  have Q: "146097 * q \<le> 400 * d \<and> 400 * d < 146097 * q + 146097"
    unfolding q_def by (rule div_bounds) simp
  have lo: "DayFromYear (1970 + q - 1) \<le> d"
    using DayFromYear_bounds [of "1970 + q - 1", THEN conjunct2] Q [THEN conjunct1] by simp
  have hi: "d < DayFromYear (1970 + q + 1 + 1)"
    using DayFromYear_bounds [of "1970 + q + 1 + 1", THEN conjunct1] Q [THEN conjunct2] by simp
  have Y: "YearFromTime t =
      (if d < DayFromYear (1970 + q) then 1970 + q - 1
       else if DayFromYear (1970 + q + 1) \<le> d then 1970 + q + 1
       else 1970 + q)"
    by (simp add: YearFromTime_def Let_def d_def q_def)
  show ?thesis
    unfolding Y d_def [symmetric] using lo hi by (simp add: algebra_simps)
qed

lemma DayWithinYear_range:
  "0 \<le> DayWithinYear t \<and> DayWithinYear t < DaysInYear (YearFromTime t)"
  using YearFromTime_correct [of t] DayFromYear_step [of "YearFromTime t"]
  by (simp add: DayWithinYear_def)

lemma YearFromTime_range:
  assumes "\<bar>t\<bar> \<le> 8640000000000000"
  shows "\<bar>YearFromTime t\<bar> < 1000000"
proof -
  have D: "86400000 * Day t \<le> t \<and> t < 86400000 * Day t + 86400000"
    unfolding Day_def msPerDay_def by (rule div_bounds) simp
  have d1: "- 100000000 \<le> Day t"
    using D [THEN conjunct2] assms by linarith
  have d2: "Day t \<le> 100000000"
    using D [THEN conjunct1] assms by linarith
  have "YearFromTime t < 1000000"
    using YearFromTime_correct [of t, THEN conjunct1]
      DayFromYear_bounds [of "YearFromTime t", THEN conjunct1] d2
    by simp
  moreover have "- 1000000 < YearFromTime t"
    using YearFromTime_correct [of t, THEN conjunct2]
      DayFromYear_bounds [of "YearFromTime t + 1", THEN conjunct2] d1
    by simp
  ultimately show ?thesis by linarith
qed

subsection \<open>Month, date and time of day\<close>

lemma DaysInYear_cases: "DaysInYear y = 365 \<or> DaysInYear y = 366"
  by (simp add: DaysInYear_def)

lemma MonthFromTime_range: "0 \<le> MonthFromTime t \<and> MonthFromTime t \<le> 11"
  by (simp add: MonthFromTime_def Let_def)

lemma calendar_core:
  assumes "0 \<le> DayWithinYear t" and "DayWithinYear t < DaysInYear (YearFromTime t)"
  shows "DaysBeforeMonth (YearFromTime t) (MonthFromTime t) + DateFromTime t - 1 = DayWithinYear t \<and>
         1 \<le> DateFromTime t \<and>
         DateFromTime t \<le> DaysInMonth (YearFromTime t) (MonthFromTime t)"
proof -
  define d where "d = DayWithinYear t"
  define y where "y = YearFromTime t"
  from assms have d: "0 \<le> d" "d < DaysInYear y" by (simp_all add: d_def y_def)
  from DaysInYear_cases [of y] show ?thesis
  proof
    assume c: "DaysInYear y = 365"
    with d show ?thesis
      unfolding MonthFromTime_def DateFromTime_def DaysBeforeMonth_def DaysInMonth_def
        InLeapYear_def Let_def d_def [symmetric] y_def [symmetric]
      by simp
  next
    assume c: "DaysInYear y = 366"
    with d show ?thesis
      unfolding MonthFromTime_def DateFromTime_def DaysBeforeMonth_def DaysInMonth_def
        InLeapYear_def Let_def d_def [symmetric] y_def [symmetric]
      by simp
  qed
qed

lemma MakeDay_fields:
  "MakeDay (YearFromTime t) (MonthFromTime t) (DateFromTime t) = Day t"
  using calendar_core [of t] DayWithinYear_range [of t]
  by (simp add: MakeDay_def DayWithinYear_def)

lemma DateFromTime_range:
  "1 \<le> DateFromTime t \<and> DateFromTime t \<le> DaysInMonth (YearFromTime t) (MonthFromTime t)"
  using calendar_core [of t] DayWithinYear_range [of t] by simp

lemma DaysInMonth_le: "DaysInMonth y m \<le> 31"
  by (simp add: DaysInMonth_def)

lemma MakeTime_fields:
  "MakeTime (HourFromTime t) (MinFromTime t) (SecFromTime t) (msFromTime t) = TimeWithinDay t"
proof -
  define h where "h = t div 3600000 mod 24"
  define m where "m = t div 60000 mod 60"
  define s where "s = t div 1000 mod 60"
  define r1 where "r1 = t mod 1000"
  define r2 where "r2 = t mod 60000"
  define r3 where "r3 = t mod 3600000"
  define r4 where "r4 = t mod 86400000"
  have "t mod (1000 * 60) = 1000 * (t div 1000 mod 60) + t mod 1000"
    by (rule zmod_zmult2_eq) simp
  then have e2: "r2 = 1000 * s + r1" by (simp add: r2_def s_def r1_def)
  have "t mod (60000 * 60) = 60000 * (t div 60000 mod 60) + t mod 60000"
    by (rule zmod_zmult2_eq) simp
  then have e3: "r3 = 60000 * m + r2" by (simp add: r3_def m_def r2_def)
  have "t mod (3600000 * 24) = 3600000 * (t div 3600000 mod 24) + t mod 3600000"
    by (rule zmod_zmult2_eq) simp
  then have e4: "r4 = 3600000 * h + r3" by (simp add: r4_def h_def r3_def)
  have "MakeTime (HourFromTime t) (MinFromTime t) (SecFromTime t) (msFromTime t) =
      h * 3600000 + m * 60000 + s * 1000 + r1"
    by (simp only: MakeTime_def HourFromTime_def MinFromTime_def SecFromTime_def msFromTime_def
        msPerHour_def msPerMinute_def msPerSecond_def h_def m_def s_def r1_def)
  also have "\<dots> = r4" using e2 e3 e4 by linarith
  finally show ?thesis by (simp only: TimeWithinDay_def msPerDay_def r4_def)
qed

lemma MakeDate_fields: "MakeDate (Day t) (TimeWithinDay t) = t"
  by (simp add: MakeDate_def Day_def TimeWithinDay_def)

lemma time_fields_range:
  "0 \<le> HourFromTime t \<and> HourFromTime t \<le> 23 \<and> 0 \<le> MinFromTime t \<and> MinFromTime t \<le> 59 \<and>
   0 \<le> SecFromTime t \<and> SecFromTime t \<le> 59 \<and> 0 \<le> msFromTime t \<and> msFromTime t \<le> 999"
proof -
  have "\<And>a::int. a mod 24 \<le> 23" "\<And>a::int. a mod 60 \<le> 59" "\<And>a::int. a mod 1000 \<le> 999"
    by linarith+
  then show ?thesis
    by (simp add: HourFromTime_def MinFromTime_def SecFromTime_def msFromTime_def msPerSecond_def)
qed

subsection \<open>Printing and reading digits\<close>

lemma digit_cases:
  assumes "0 \<le> d" and "d < (10::int)"
  shows "d = 0 \<or> d = 1 \<or> d = 2 \<or> d = 3 \<or> d = 4 \<or> d = 5 \<or> d = 6 \<or> d = 7 \<or> d = 8 \<or> d = 9"
  using assms by arith

lemma digit_char_props:
  assumes "0 \<le> d" and "d < 10"
  shows "is_digit (digit_char d) \<and> digit_value (digit_char d) = d \<and>
         digit_char d \<noteq> CHR ''+'' \<and> digit_char d \<noteq> CHR ''-''"
  using digit_cases [OF assms]
  by (elim disjE) (simp_all add: digit_char_def is_digit_def digit_value_def eval_nat_numeral)

lemma length_pad: "length (pad k n) = k"
  by (induction k arbitrary: n) simp_all

lemma number_snoc: "number (cs @ [c]) = 10 * number cs + digit_value c"
  by (simp add: number_def)

lemma pad_digits: "0 \<le> n \<Longrightarrow> list_all is_digit (pad k n)"
proof (induction k arbitrary: n)
  case 0
  then show ?case by simp
next
  case (Suc k)
  have "0 \<le> n div 10" using Suc.prems by simp
  moreover have "is_digit (digit_char (n mod 10))"
    using digit_char_props [of "n mod 10"] by simp
  ultimately show ?case using Suc.IH by simp
qed

lemma number_pad: "0 \<le> n \<Longrightarrow> number (pad k n) = n mod 10 ^ k"
proof (induction k arbitrary: n)
  case 0
  then show ?case by (simp add: number_def)
next
  case (Suc k)
  have n10: "0 \<le> n div 10" using Suc.prems by simp
  have dv: "digit_value (digit_char (n mod 10)) = n mod 10"
    using digit_char_props [of "n mod 10"] by simp
  have "number (pad (Suc k) n) = 10 * (n div 10 mod 10 ^ k) + n mod 10"
    using Suc.IH [OF n10] dv by (simp add: number_snoc)
  also have "\<dots> = n mod (10 * 10 ^ k)"
    by (simp add: zmod_zmult2_eq)
  finally show ?case by simp
qed

lemma read_digits_pad:
  assumes "0 \<le> n" and "n < 10 ^ k"
  shows "read_digits k (pad k n @ r) = Some (n, r)"
  using assms by (simp add: read_digits_def length_pad pad_digits number_pad)

lemma expect_Cons: "expect c (c # r) = Some r"
  by (simp add: expect_def)

lemma pad_Suc_Cons:
  assumes "0 \<le> n"
  shows "\<exists>c cs. pad (Suc k) n = c # cs \<and> c \<noteq> CHR ''+'' \<and> c \<noteq> CHR ''-''"
  using assms
proof (induction k arbitrary: n)
  case 0
  then show ?case using digit_char_props [of "n mod 10"] by simp
next
  case (Suc k)
  have "0 \<le> n div 10" using Suc.prems by simp
  from Suc.IH [OF this] obtain c cs where
    "pad (Suc k) (n div 10) = c # cs" "c \<noteq> CHR ''+''" "c \<noteq> CHR ''-''" by blast
  then show ?case by (simp del: pad.simps add: pad.simps(2) [of "Suc k"])
qed

lemma read_year_string:
  assumes "\<bar>y\<bar> < 1000000"
  shows "read_year (year_string y @ r) = Some (y, r)"
proof (cases "0 \<le> y \<and> y \<le> 9999")
  case True
  then obtain c cs where p: "pad 4 y = c # cs" "c \<noteq> CHR ''+''" "c \<noteq> CHR ''-''"
    using pad_Suc_Cons [of y 3] by (auto simp: eval_nat_numeral)
  have "read_digits 4 (pad 4 y @ r) = Some (y, r)"
    using True by (intro read_digits_pad) simp_all
  then show ?thesis using True p by (simp add: read_year_def year_string_def)
next
  case False
  show ?thesis
  proof (cases "y < 0")
    case True
    have "read_digits 6 (pad 6 (- y) @ r) = Some (- y, r)"
      using True assms by (intro read_digits_pad) simp_all
    then show ?thesis using True by (simp add: read_year_def year_string_def)
  next
    case pos: False
    have "read_digits 6 (pad 6 y @ r) = Some (y, r)"
      using pos assms by (intro read_digits_pad) simp_all
    then show ?thesis using pos False by (simp add: read_year_def year_string_def)
  qed
qed

subsection \<open>Reading back what \<open>toISOString\<close> prints\<close>

text \<open>
  For every time value in the range of \<open>Date\<close>, \<open>toISOString\<close> returns a string,
  and reading that string gives the time value back.
\<close>

lemma parse_toISOString:
  assumes "\<bar>t\<bar> \<le> 8640000000000000"
  shows "\<exists>s. toISOString (TimeClip t) = Inr s \<and> parse_iso8601 s = Some t"
proof -
  have clip: "TimeClip t = Some t" using assms by (simp add: TimeClip_def)
  have mo: "0 \<le> MonthFromTime t + 1" "MonthFromTime t + 1 < 10 ^ 2"
    using MonthFromTime_range [of t] by simp_all
  have dt: "0 \<le> DateFromTime t" "DateFromTime t < 10 ^ 2"
    using DateFromTime_range [of t] DaysInMonth_le [of "YearFromTime t" "MonthFromTime t"]
    by simp_all
  have tf: "0 \<le> HourFromTime t" "HourFromTime t < 10 ^ 2" "0 \<le> MinFromTime t"
    "MinFromTime t < 10 ^ 2" "0 \<le> SecFromTime t" "SecFromTime t < 10 ^ 2"
    "0 \<le> msFromTime t" "msFromTime t < 10 ^ 3"
    using time_fields_range [of t] by simp_all
  have rt: "MakeDate (MakeDay (YearFromTime t) (MonthFromTime t) (DateFromTime t))
      (MakeTime (HourFromTime t) (MinFromTime t) (SecFromTime t) (msFromTime t)) = t"
    by (simp only: MakeDay_fields MakeTime_fields MakeDate_fields)
  have ok: "1 \<le> MonthFromTime t + 1 \<and> MonthFromTime t + 1 \<le> 12 \<and> 1 \<le> DateFromTime t \<and>
      DateFromTime t \<le> DaysInMonth (YearFromTime t) (MonthFromTime t) \<and>
      HourFromTime t \<le> 23 \<and> MinFromTime t \<le> 59 \<and> SecFromTime t \<le> 59"
    using MonthFromTime_range [of t] DateFromTime_range [of t] time_fields_range [of t] by simp
  have "parse_iso8601
      (year_string (YearFromTime t) @ ''-'' @ pad 2 (MonthFromTime t + 1) @ ''-'' @
       pad 2 (DateFromTime t) @ ''T'' @ pad 2 (HourFromTime t) @ '':'' @
       pad 2 (MinFromTime t) @ '':'' @ pad 2 (SecFromTime t) @ ''.'' @
       pad 3 (msFromTime t) @ ''Z'') = Some t"
    unfolding parse_iso8601_def
    using ok
    by (simp del: pad.simps
        add: read_year_string [OF YearFromTime_range [OF assms]] expect_Cons
          read_digits_pad [OF mo] read_digits_pad [OF dt] read_digits_pad [OF tf(1,2)]
          read_digits_pad [OF tf(3,4)] read_digits_pad [OF tf(5,6)] read_digits_pad [OF tf(7,8)]
          rt clip)
  then show ?thesis by (simp add: toISOString_def clip)
qed

section \<open>Properties of the router\<close>

lemma lower_root: "map lower_char ''/'' = ''/''"
  by code_simp

lemma lower_health: "map lower_char ''/health'' = ''/health''"
  by code_simp

lemma match_root: "match_path ''/'' p \<longleftrightarrow> map lower_char p = ''/'' \<or> map lower_char p = []"
  by (simp add: match_path_def Let_def lower_root del: list.map)

lemma match_health:
  "match_path ''/health'' p \<longleftrightarrow>
     map lower_char p = ''/health'' \<or> map lower_char p = ''/health/''"
  by (simp add: match_path_def Let_def lower_health del: list.map)

lemma handles_get:
  "handles_method ''get'' m \<longleftrightarrow> map lower_char m = ''get'' \<or> map lower_char m = ''head''"
  by (auto simp add: handles_method_def Let_def)

lemma handle_pending:
  "handle stack (Some e) opts req w = (finalhandler (Some e) opts req, w)"
proof (induction stack)
  case Nil
  show ?case by simp
next
  case (Cons l stack)
  then show ?case by (cases l) simp_all
qed

lemma app_stack:
  "app JSON_parses =
     [Use (express_json JSON_parses), Route ''/'' ''get'' root_handler,
      Route ''/health'' ''get'' health_handler]"
  by (simp add: app_def app_get_def app_use_def express_def)

lemma root_handler_world: "snd (root_handler req w) = w"
  by (simp add: root_handler_def split: sum.split)

lemma health_handler_world: "snd (health_handler req w) = w"
  by (simp add: health_handler_def)

lemma root_handler_valid:
  assumes "\<bar>wall_clock w\<bar> \<le> 8640000000000000"
  shows "\<exists>ts. root_handler req w =
           (Inr (res_json [(''message'', JString ''Welcome to Node.js Demo App!''),
                           (''status'', JString ''success''),
                           (''timestamp'', JString ts)]), w) \<and>
         parse_iso8601 ts = Some (wall_clock w)"
proof -
  from parse_toISOString [OF assms] obtain ts where
    "toISOString (TimeClip (wall_clock w)) = Inr ts" "parse_iso8601 ts = Some (wall_clock w)"
    by blast
  then show ?thesis by (intro exI [of _ ts]) (simp add: root_handler_def new_Date_def)
qed

text \<open>The service never changes the state, whatever the request.\<close>

lemma serve_world: "snd (serve JSON_parses req w) = w"
proof -
  obtain a where a: "root_handler req w = (a, w)"
    using root_handler_world [of req w] by (cases "root_handler req w") simp
  obtain b where b: "health_handler req w = (b, w)"
    using health_handler_world [of req w] by (cases "health_handler req w") simp
  show ?thesis
    by (cases "express_json JSON_parses req"; cases a; cases b)
      (simp_all add: serve_def app_stack handle_pending a b)
qed

lemma step_fields:
  "process_start (step JSON_parses e w) = process_start w \<and>
   listen_port (step JSON_parses e w) = listen_port w \<and>
   mono_clock (step JSON_parses e w) = mono_clock w + elapsed [e]"
proof (cases e)
  case (Tick d wall)
  then show ?thesis by simp
next
  case (Request req)
  then show ?thesis by (simp add: serve_world)
qed

lemma run_fields:
  "process_start (run JSON_parses es w) = process_start w \<and>
   listen_port (run JSON_parses es w) = listen_port w \<and>
   mono_clock (run JSON_parses es w) = mono_clock w + elapsed es"
proof (induction es arbitrary: w)
  case Nil
  show ?case by simp
next
  case (Cons e es)
  have "elapsed (e # es) = elapsed [e] + elapsed es" by (cases e) simp_all
  then show ?case using Cons.IH [of "step JSON_parses e w"] step_fields [of JSON_parses e w]
    by simp
qed

lemma elapsed_nonneg: "0 \<le> elapsed es"
  by (induction es rule: elapsed.induct) simp_all

lemma lower_GET: "map lower_char ''GET'' = ''get''"
  by code_simp

lemma lower_HEAD: "map lower_char ''HEAD'' = ''head''"
  by code_simp

lemma lower_OPTIONS: "map lower_char ''OPTIONS'' = ''options''"
  by code_simp

lemma send_GET:
  assumes "req_method req = ''GET''"
  shows "send req (res_json obj) =
     (if req_fresh_for req obj then \<lparr>res_status = 304, res_body = Empty\<rparr>
      else \<lparr>res_status = 200, res_body = Json obj\<rparr>)"
  using assms by (simp add: send_def res_json_def Let_def)

text \<open>
  What the service answers to \<open>GET /\<close> and to \<open>GET /health\<close>, for every such
  request: the body parser's error, or what \<open>res.send\<close> makes of the handler's reply.
\<close>

lemma serve_GET_root:
  assumes "req_method req = ''GET''" and "req_path req = ''/''"
    and "root_handler req w = (Inr (res_json obj), w)"
  shows "serve JSON_parses req w =
     ((case express_json JSON_parses req of
         Some e \<Rightarrow> \<lparr>res_status = final_status e, res_body = ErrorPage\<rparr>
       | None \<Rightarrow>
           if req_fresh_for req obj then \<lparr>res_status = 304, res_body = Empty\<rparr>
           else \<lparr>res_status = 200, res_body = Json obj\<rparr>), w)"
proof (cases "express_json JSON_parses req")
  case None
  then show ?thesis
    using assms
    by (simp add: serve_def app_stack match_root handles_get lower_root lower_GET send_GET
        del: list.map)
next
  case (Some e)
  then show ?thesis
    using assms(1)
    by (simp add: serve_def app_stack handle_pending finalhandler_def error_body_def)
qed

lemma serve_GET_health:
  assumes "req_method req = ''GET''" and "req_path req = ''/health''"
  shows "serve JSON_parses req w =
     ((case express_json JSON_parses req of
         Some e \<Rightarrow> \<lparr>res_status = final_status e, res_body = ErrorPage\<rparr>
       | None \<Rightarrow>
           if req_fresh_for req
                [(''status'', JString ''healthy''), (''uptime'', JNumber (process_uptime w))]
           then \<lparr>res_status = 304, res_body = Empty\<rparr>
           else \<lparr>res_status = 200,
                 res_body = Json [(''status'', JString ''healthy''),
                                  (''uptime'', JNumber (process_uptime w))]\<rparr>), w)"
proof (cases "express_json JSON_parses req")
  case None
  then show ?thesis
    using assms
    by (simp add: serve_def app_stack match_root match_health handles_get lower_health
        lower_GET send_GET health_handler_def del: list.map)
next
  case (Some e)
  then show ?thesis
    using assms(1)
    by (simp add: serve_def app_stack handle_pending finalhandler_def error_body_def)
qed

lemma uptime_mono:
  assumes "process_start w1 = process_start w2" and "mono_clock w1 \<le> mono_clock w2"
  shows "process_uptime w1 \<le> process_uptime w2"
  using assms by (simp add: process_uptime_def divide_right_mono)

lemma run_clock: "mono_clock w \<le> mono_clock (run JSON_parses es w)"
  using run_fields [of JSON_parses es w] elapsed_nonneg [of es] by simp


lemma uptime_started: "0 \<le> process_uptime (run JSON_parses es (startup env t0 wall))"
  using run_fields [of JSON_parses es "startup env t0 wall"] elapsed_nonneg [of es]
  by (simp add: process_uptime_def startup_def)

lemma uptime_value:
  "process_uptime (run JSON_parses es (startup env t0 wall)) =
     real_of_int (mono_clock (run JSON_parses es (startup env t0 wall)) - t0) / 1000000000"
  using run_fields [of JSON_parses es "startup env t0 wall"]
  by (simp add: process_uptime_def startup_def)

section \<open>The claims\<close>

text \<open>
  C1, as stated, is false: not every \<open>GET /\<close> request is answered with status 200.
  A request whose cache validator matches (\<open>If-None-Match: *\<close>) is answered 304
  without a body, and a request with a malformed JSON body is answered 400.
\<close>

theorem root_not_always_200:
  "serve (\<lambda>s. s = ''{}'')
     ((plain_request ''GET'' ''/'')\<lparr>req_fresh_for := (\<lambda>obj. True)\<rparr>)
     (startup Map.empty 0 0) =
     (\<lparr>res_status = 304, res_body = Empty\<rparr>, startup Map.empty 0 0) \<and>
   serve (\<lambda>s. s = ''{}'')
     ((plain_request ''GET'' ''/'')
        \<lparr>req_entity := Some \<lparr>media_type = ''application/json'', charset = [],
                              delivered = Read_text ''{bad''\<rparr>\<rparr>)
     (startup Map.empty 0 0) =
     (\<lparr>res_status = 400, res_body = ErrorPage\<rparr>, startup Map.empty 0 0)"
proof -
  have "toISOString (TimeClip 0) = Inr ''1970-01-01T00:00:00.000Z''" by code_simp
  then have h: "root_handler req (startup Map.empty 0 0) =
      (Inr (res_json [(''message'', JString ''Welcome to Node.js Demo App!''),
                      (''status'', JString ''success''),
                      (''timestamp'', JString ''1970-01-01T00:00:00.000Z'')]),
       startup Map.empty 0 0)" for req
    by (simp add: root_handler_def new_Date_def startup_def)
  show ?thesis
    by (simp add: serve_GET_root [OF _ _ h] plain_request_def express_json_def first_char_def
        is_json_space_def)
qed

text \<open>
  C1, amended. Every request \<open>GET /\<close> is answered in one of three ways. If the JSON
  body parser rejects its body, the answer is the parser's error status (400, 413 or
  415) with an error page. Otherwise the handler replies with status 200 and a JSON
  object whose \<open>message\<close> is "Welcome to Node.js Demo App!", whose \<open>status\<close> is
  "success" and whose \<open>timestamp\<close> is a valid ISO-8601 string that reads back as the
  wall-clock time at which the request was handled; that reply is sent as it is,
  unless the request's cache validators match it, in which case the answer is 304
  without a body. The wall clock is assumed to show a time in the range of \<open>Date\<close>.
\<close>

theorem root_welcome:
  assumes "\<bar>wall_clock w\<bar> \<le> 8640000000000000"
    and "req_method req = ''GET''" and "req_path req = ''/''"
  shows "\<exists>ts. parse_iso8601 ts = Some (wall_clock w) \<and>
     root_handler req w =
       (Inr \<lparr>reply_status = 200,
             reply_object = [(''message'', JString ''Welcome to Node.js Demo App!''),
                             (''status'', JString ''success''),
                             (''timestamp'', JString ts)]\<rparr>, w) \<and>
     serve JSON_parses req w =
       ((case express_json JSON_parses req of
           Some e \<Rightarrow> \<lparr>res_status = final_status e, res_body = ErrorPage\<rparr>
         | None \<Rightarrow>
             if req_fresh_for req [(''message'', JString ''Welcome to Node.js Demo App!''),
                                   (''status'', JString ''success''),
                                   (''timestamp'', JString ts)]
             then \<lparr>res_status = 304, res_body = Empty\<rparr>
             else \<lparr>res_status = 200,
                   res_body = Json [(''message'', JString ''Welcome to Node.js Demo App!''),
                                    (''status'', JString ''success''),
                                    (''timestamp'', JString ts)]\<rparr>), w)"
proof -
  from root_handler_valid [OF assms(1), of req] obtain ts where
    h: "root_handler req w =
          (Inr (res_json [(''message'', JString ''Welcome to Node.js Demo App!''),
                          (''status'', JString ''success''),
                          (''timestamp'', JString ts)]), w)"
    and p: "parse_iso8601 ts = Some (wall_clock w)"
    by blast
  show ?thesis
  proof (intro exI [of _ ts] conjI)
    show "parse_iso8601 ts = Some (wall_clock w)" by (rule p)
    show "root_handler req w =
       (Inr \<lparr>reply_status = 200,
             reply_object = [(''message'', JString ''Welcome to Node.js Demo App!''),
                             (''status'', JString ''success''),
                             (''timestamp'', JString ts)]\<rparr>, w)"
      using h by (simp add: res_json_def)
    show "serve JSON_parses req w =
       ((case express_json JSON_parses req of
           Some e \<Rightarrow> \<lparr>res_status = final_status e, res_body = ErrorPage\<rparr>
         | None \<Rightarrow>
             if req_fresh_for req [(''message'', JString ''Welcome to Node.js Demo App!''),
                                   (''status'', JString ''success''),
                                   (''timestamp'', JString ts)]
             then \<lparr>res_status = 304, res_body = Empty\<rparr>
             else \<lparr>res_status = 200,
                   res_body = Json [(''message'', JString ''Welcome to Node.js Demo App!''),
                                    (''status'', JString ''success''),
                                    (''timestamp'', JString ts)]\<rparr>), w)"
      by (rule serve_GET_root [OF assms(2,3) h])
  qed
qed

theorem root_welcome_witness:
  "\<bar>wall_clock (startup Map.empty 0 1700000000000)\<bar> \<le> 8640000000000000 \<and>
   req_method (plain_request ''GET'' ''/'') = ''GET'' \<and>
   req_path (plain_request ''GET'' ''/'') = ''/'' \<and>
   parse_iso8601 ''2023-11-14T22:13:20.000Z'' = Some 1700000000000 \<and>
   serve (\<lambda>s. s = ''{}'') (plain_request ''GET'' ''/'') (startup Map.empty 0 1700000000000) =
     (\<lparr>res_status = 200,
       res_body = Json [(''message'', JString ''Welcome to Node.js Demo App!''),
                        (''status'', JString ''success''),
                        (''timestamp'', JString ''2023-11-14T22:13:20.000Z'')]\<rparr>,
      startup Map.empty 0 1700000000000)"
proof -
  let ?w = "startup Map.empty 0 1700000000000"
  let ?r = "plain_request ''GET'' ''/''"
  have v: "\<bar>wall_clock ?w\<bar> \<le> 8640000000000000" by (simp add: startup_def)
  have m: "req_method ?r = ''GET''" and q: "req_path ?r = ''/''"
    by (simp_all add: plain_request_def)
  from root_welcome [OF v m q, of "\<lambda>s. s = ''{}''"] obtain ts where
    p: "parse_iso8601 ts = Some (wall_clock ?w)"
    and h: "root_handler ?r ?w =
       (Inr \<lparr>reply_status = 200,
             reply_object = [(''message'', JString ''Welcome to Node.js Demo App!''),
                             (''status'', JString ''success''),
                             (''timestamp'', JString ts)]\<rparr>, ?w)"
    and s: "serve (\<lambda>s. s = ''{}'') ?r ?w =
       ((case express_json (\<lambda>s. s = ''{}'') ?r of
           Some e \<Rightarrow> \<lparr>res_status = final_status e, res_body = ErrorPage\<rparr>
         | None \<Rightarrow>
             if req_fresh_for ?r [(''message'', JString ''Welcome to Node.js Demo App!''),
                                  (''status'', JString ''success''),
                                  (''timestamp'', JString ts)]
             then \<lparr>res_status = 304, res_body = Empty\<rparr>
             else \<lparr>res_status = 200,
                   res_body = Json [(''message'', JString ''Welcome to Node.js Demo App!''),
                                    (''status'', JString ''success''),
                                    (''timestamp'', JString ts)]\<rparr>), ?w)"
    by blast
  have "toISOString (TimeClip 1700000000000) = Inr ''2023-11-14T22:13:20.000Z''"
    by code_simp
  then have "root_handler ?r ?w =
       (Inr (res_json [(''message'', JString ''Welcome to Node.js Demo App!''),
                       (''status'', JString ''success''),
                       (''timestamp'', JString ''2023-11-14T22:13:20.000Z'')]), ?w)"
    by (simp add: root_handler_def new_Date_def startup_def)
  with h have ts: "ts = ''2023-11-14T22:13:20.000Z''" by (simp add: res_json_def)
  have w: "wall_clock ?w = 1700000000000" by (simp add: startup_def)
  have e: "express_json (\<lambda>s. s = ''{}'') ?r = None" "\<not> req_fresh_for ?r obj" for obj
    by (simp_all add: plain_request_def express_json_def)
  from s have "serve (\<lambda>s. s = ''{}'') ?r ?w =
     (\<lparr>res_status = 200,
       res_body = Json [(''message'', JString ''Welcome to Node.js Demo App!''),
                        (''status'', JString ''success''),
                        (''timestamp'', JString ''2023-11-14T22:13:20.000Z'')]\<rparr>, ?w)"
    unfolding ts by (simp add: e)
  with v m q p show ?thesis unfolding ts w by blast
qed

text \<open>
  C2, as stated, is false: not every \<open>GET /health\<close> request is answered with status
  200. A request whose cache validator matches (\<open>If-None-Match: *\<close>) is answered
  304 without a body, and a request with a malformed JSON body is answered 400.
\<close>

theorem health_not_always_200:
  "serve (\<lambda>s. s = ''{}'')
     ((plain_request ''GET'' ''/health'')\<lparr>req_fresh_for := (\<lambda>obj. True)\<rparr>)
     (startup Map.empty 0 0) =
     (\<lparr>res_status = 304, res_body = Empty\<rparr>, startup Map.empty 0 0) \<and>
   serve (\<lambda>s. s = ''{}'')
     ((plain_request ''GET'' ''/health'')
        \<lparr>req_entity := Some \<lparr>media_type = ''application/json'', charset = [],
                              delivered = Read_text ''{bad''\<rparr>\<rparr>)
     (startup Map.empty 0 0) =
     (\<lparr>res_status = 400, res_body = ErrorPage\<rparr>, startup Map.empty 0 0)"
  by (simp add: serve_GET_health plain_request_def express_json_def first_char_def
      is_json_space_def)

text \<open>
  C2, amended. Every request \<open>GET /health\<close>, in every state the process can reach
  from its start, is answered in one of three ways. If the JSON body parser rejects
  its body, the answer is the parser's error status (400, 413 or 415) with an error
  page. Otherwise the handler replies with status 200 and a JSON object whose
  \<open>status\<close> is "healthy" and whose \<open>uptime\<close> is a number that is not negative; that
  reply is sent as it is, unless the request's cache validators match it, in which
  case the answer is 304 without a body.
\<close>

theorem health_healthy:
  assumes "req_method req = ''GET''" and "req_path req = ''/health''"
  shows "\<exists>u. 0 \<le> u \<and>
     health_handler req (run JSON_parses es (startup env t0 wall)) =
       (Inr \<lparr>reply_status = 200,
             reply_object = [(''status'', JString ''healthy''), (''uptime'', JNumber u)]\<rparr>,
        run JSON_parses es (startup env t0 wall)) \<and>
     serve JSON_parses req (run JSON_parses es (startup env t0 wall)) =
       ((case express_json JSON_parses req of
           Some e \<Rightarrow> \<lparr>res_status = final_status e, res_body = ErrorPage\<rparr>
         | None \<Rightarrow>
             if req_fresh_for req [(''status'', JString ''healthy''), (''uptime'', JNumber u)]
             then \<lparr>res_status = 304, res_body = Empty\<rparr>
             else \<lparr>res_status = 200,
                   res_body = Json [(''status'', JString ''healthy''),
                                    (''uptime'', JNumber u)]\<rparr>),
        run JSON_parses es (startup env t0 wall))"
proof -
  let ?w = "run JSON_parses es (startup env t0 wall)"
  show ?thesis
  proof (intro exI [of _ "process_uptime ?w"] conjI)
    show "0 \<le> process_uptime ?w" by (rule uptime_started)
    show "health_handler req ?w =
       (Inr \<lparr>reply_status = 200,
             reply_object = [(''status'', JString ''healthy''),
                             (''uptime'', JNumber (process_uptime ?w))]\<rparr>, ?w)"
      by (simp add: health_handler_def res_json_def)
    show "serve JSON_parses req ?w =
       ((case express_json JSON_parses req of
           Some e \<Rightarrow> \<lparr>res_status = final_status e, res_body = ErrorPage\<rparr>
         | None \<Rightarrow>
             if req_fresh_for req [(''status'', JString ''healthy''),
                                   (''uptime'', JNumber (process_uptime ?w))]
             then \<lparr>res_status = 304, res_body = Empty\<rparr>
             else \<lparr>res_status = 200,
                   res_body = Json [(''status'', JString ''healthy''),
                                    (''uptime'', JNumber (process_uptime ?w))]\<rparr>), ?w)"
      by (rule serve_GET_health [OF assms])
  qed
qed

theorem health_healthy_witness:
  "req_method (plain_request ''GET'' ''/health'') = ''GET'' \<and>
   req_path (plain_request ''GET'' ''/health'') = ''/health'' \<and>
   (\<exists>u. 0 \<le> u \<and>
      serve (\<lambda>s. s = ''{}'') (plain_request ''GET'' ''/health'')
          (run (\<lambda>s. s = ''{}'') [Tick 5000000000 7] (startup Map.empty 100 0)) =
        (\<lparr>res_status = 200,
          res_body = Json [(''status'', JString ''healthy''), (''uptime'', JNumber u)]\<rparr>,
         run (\<lambda>s. s = ''{}'') [Tick 5000000000 7] (startup Map.empty 100 0)))"
proof -
  let ?r = "plain_request ''GET'' ''/health''"
  have m: "req_method ?r = ''GET''" and q: "req_path ?r = ''/health''"
    by (simp_all add: plain_request_def)
  have e: "express_json (\<lambda>s. s = ''{}'') ?r = None" "\<not> req_fresh_for ?r obj" for obj
    by (simp_all add: plain_request_def express_json_def)
  from health_healthy [OF m q, of "\<lambda>s. s = ''{}''" "[Tick 5000000000 7]" Map.empty 100 0]
  have "\<exists>u. 0 \<le> u \<and>
      serve (\<lambda>s. s = ''{}'') ?r
          (run (\<lambda>s. s = ''{}'') [Tick 5000000000 7] (startup Map.empty 100 0)) =
        (\<lparr>res_status = 200,
          res_body = Json [(''status'', JString ''healthy''), (''uptime'', JNumber u)]\<rparr>,
         run (\<lambda>s. s = ''{}'') [Tick 5000000000 7] (startup Map.empty 100 0))"
    by (simp only: e option.case if_False) blast
  with m q show ?thesis by blast
qed

text \<open>
  C3. The uptime that a \<open>GET /health\<close> request is answered with is the current
  reading of the clock less the reading taken when the process started, in seconds;
  that start value is set once, at the start, and no tick and no request changes it
  afterwards. A process that has run for five seconds answers with an uptime of 5.
  (The answer carries an uptime when it is the 200 answer: when the body parser lets
  the request through and no cache validator matches.)
\<close>

theorem uptime_since_start:
  assumes "req_method req = ''GET''" and "req_path req = ''/health''"
  shows "process_start (run JSON_parses es (startup env t0 wall)) = t0 \<and>
   mono_clock (run JSON_parses es (startup env t0 wall)) = t0 + elapsed es \<and>
   serve JSON_parses req (run JSON_parses es (startup env t0 wall)) =
     ((case express_json JSON_parses req of
         Some e \<Rightarrow> \<lparr>res_status = final_status e, res_body = ErrorPage\<rparr>
       | None \<Rightarrow>
           if req_fresh_for req
                [(''status'', JString ''healthy''),
                 (''uptime'', JNumber
                    (real_of_int (mono_clock (run JSON_parses es (startup env t0 wall)) - t0)
                       / 1000000000))]
           then \<lparr>res_status = 304, res_body = Empty\<rparr>
           else \<lparr>res_status = 200,
                 res_body = Json
                   [(''status'', JString ''healthy''),
                    (''uptime'', JNumber
                       (real_of_int (mono_clock (run JSON_parses es (startup env t0 wall)) - t0)
                          / 1000000000))]\<rparr>),
      run JSON_parses es (startup env t0 wall)) \<and>
   (elapsed es = 5000000000 \<and> express_json JSON_parses req = None \<and>
    \<not> req_fresh_for req [(''status'', JString ''healthy''), (''uptime'', JNumber 5)] \<longrightarrow>
    serve JSON_parses req (run JSON_parses es (startup env t0 wall)) =
      (\<lparr>res_status = 200,
        res_body = Json [(''status'', JString ''healthy''), (''uptime'', JNumber 5)]\<rparr>,
       run JSON_parses es (startup env t0 wall)))"
proof -
  let ?w = "run JSON_parses es (startup env t0 wall)"
  have s: "process_start ?w = t0" and m: "mono_clock ?w = t0 + elapsed es"
    using run_fields [of JSON_parses es "startup env t0 wall"] by (simp_all add: startup_def)
  have u: "process_uptime ?w = real_of_int (mono_clock ?w - t0) / 1000000000"
    by (rule uptime_value)
  have five: "elapsed es = 5000000000 \<Longrightarrow> process_uptime ?w = 5"
    by (simp add: process_uptime_def s m)
  have sv: "serve JSON_parses req ?w =
     ((case express_json JSON_parses req of
         Some e \<Rightarrow> \<lparr>res_status = final_status e, res_body = ErrorPage\<rparr>
       | None \<Rightarrow>
           if req_fresh_for req
                [(''status'', JString ''healthy''), (''uptime'', JNumber (process_uptime ?w))]
           then \<lparr>res_status = 304, res_body = Empty\<rparr>
           else \<lparr>res_status = 200,
                 res_body = Json [(''status'', JString ''healthy''),
                                  (''uptime'', JNumber (process_uptime ?w))]\<rparr>), ?w)"
    by (rule serve_GET_health [OF assms])
  show ?thesis
  proof (intro conjI impI)
    show "process_start ?w = t0" by (rule s)
    show "mono_clock ?w = t0 + elapsed es" by (rule m)
    show "serve JSON_parses req ?w =
     ((case express_json JSON_parses req of
         Some e \<Rightarrow> \<lparr>res_status = final_status e, res_body = ErrorPage\<rparr>
       | None \<Rightarrow>
           if req_fresh_for req
                [(''status'', JString ''healthy''),
                 (''uptime'', JNumber (real_of_int (mono_clock ?w - t0) / 1000000000))]
           then \<lparr>res_status = 304, res_body = Empty\<rparr>
           else \<lparr>res_status = 200,
                 res_body = Json
                   [(''status'', JString ''healthy''),
                    (''uptime'', JNumber (real_of_int (mono_clock ?w - t0) / 1000000000))]\<rparr>),
      ?w)"
      using sv unfolding u .
  next
    assume a: "elapsed es = 5000000000 \<and> express_json JSON_parses req = None \<and>
      \<not> req_fresh_for req [(''status'', JString ''healthy''), (''uptime'', JNumber 5)]"
    then show "serve JSON_parses req ?w =
      (\<lparr>res_status = 200,
        res_body = Json [(''status'', JString ''healthy''), (''uptime'', JNumber 5)]\<rparr>, ?w)"
      using sv five by simp
  qed
qed

theorem uptime_since_start_witness:
  "req_method (plain_request ''GET'' ''/health'') = ''GET'' \<and>
   req_path (plain_request ''GET'' ''/health'') = ''/health'' \<and>
   elapsed [Tick 2000000000 10, Request (plain_request ''GET'' ''/health''),
            Tick 3000000000 20] = 5000000000 \<and>
   express_json (\<lambda>s. s = ''{}'') (plain_request ''GET'' ''/health'') = None \<and>
   \<not> req_fresh_for (plain_request ''GET'' ''/health'')
       [(''status'', JString ''healthy''), (''uptime'', JNumber 5)] \<and>
   process_start (run (\<lambda>s. s = ''{}'')
     [Tick 2000000000 10, Request (plain_request ''GET'' ''/health''), Tick 3000000000 20]
     (startup Map.empty 100 0)) = 100 \<and>
   serve (\<lambda>s. s = ''{}'') (plain_request ''GET'' ''/health'')
     (run (\<lambda>s. s = ''{}'')
        [Tick 2000000000 10, Request (plain_request ''GET'' ''/health''), Tick 3000000000 20]
        (startup Map.empty 100 0)) =
     (\<lparr>res_status = 200,
       res_body = Json [(''status'', JString ''healthy''), (''uptime'', JNumber 5)]\<rparr>,
      run (\<lambda>s. s = ''{}'')
        [Tick 2000000000 10, Request (plain_request ''GET'' ''/health''), Tick 3000000000 20]
        (startup Map.empty 100 0))"
proof -
  let ?r = "plain_request ''GET'' ''/health''"
  have m: "req_method ?r = ''GET''" and q: "req_path ?r = ''/health''"
    by (simp_all add: plain_request_def)
  have e: "elapsed [Tick 2000000000 10, Request ?r, Tick 3000000000 20] = 5000000000"
    by simp
  have j: "express_json (\<lambda>s. s = ''{}'') ?r = None"
    by (simp add: plain_request_def express_json_def)
  have f: "\<not> req_fresh_for ?r [(''status'', JString ''healthy''), (''uptime'', JNumber 5)]"
    by (simp add: plain_request_def)
  from uptime_since_start [OF m q, of "\<lambda>s. s = ''{}''"
      "[Tick 2000000000 10, Request ?r, Tick 3000000000 20]" Map.empty 100 0] m q e j f
  show ?thesis by blast
qed

text \<open>
  C4. Of two \<open>GET /health\<close> requests answered by one process, the one handled at the
  later clock reading is not answered with the smaller uptime: when the start value
  is the same and the clock reading of the second is not the earlier one, the uptime
  in the second answer is at least the uptime in the first. Both conditions hold
  between any state of a process and every state that follows it.
\<close>

theorem uptime_monotone:
  assumes "req_method req1 = ''GET''" and "req_path req1 = ''/health''"
    and "req_method req2 = ''GET''" and "req_path req2 = ''/health''"
    and "process_start w1 = process_start w2" and "mono_clock w1 \<le> mono_clock w2"
  shows "\<exists>u1 u2. u1 \<le> u2 \<and>
     serve JSON_parses req1 w1 =
       ((case express_json JSON_parses req1 of
           Some e \<Rightarrow> \<lparr>res_status = final_status e, res_body = ErrorPage\<rparr>
         | None \<Rightarrow>
             if req_fresh_for req1 [(''status'', JString ''healthy''), (''uptime'', JNumber u1)]
             then \<lparr>res_status = 304, res_body = Empty\<rparr>
             else \<lparr>res_status = 200,
                   res_body = Json [(''status'', JString ''healthy''),
                                    (''uptime'', JNumber u1)]\<rparr>), w1) \<and>
     serve JSON_parses req2 w2 =
       ((case express_json JSON_parses req2 of
           Some e \<Rightarrow> \<lparr>res_status = final_status e, res_body = ErrorPage\<rparr>
         | None \<Rightarrow>
             if req_fresh_for req2 [(''status'', JString ''healthy''), (''uptime'', JNumber u2)]
             then \<lparr>res_status = 304, res_body = Empty\<rparr>
             else \<lparr>res_status = 200,
                   res_body = Json [(''status'', JString ''healthy''),
                                    (''uptime'', JNumber u2)]\<rparr>), w2) \<and>
     process_start (run JSON_parses es w1) = process_start w1 \<and>
     mono_clock w1 \<le> mono_clock (run JSON_parses es w1)"
proof (rule exI [of _ "process_uptime w1"], rule exI [of _ "process_uptime w2"], intro conjI)
  show "process_uptime w1 \<le> process_uptime w2"
    by (rule uptime_mono [OF assms(5,6)])
  show "serve JSON_parses req1 w1 =
       ((case express_json JSON_parses req1 of
           Some e \<Rightarrow> \<lparr>res_status = final_status e, res_body = ErrorPage\<rparr>
         | None \<Rightarrow>
             if req_fresh_for req1 [(''status'', JString ''healthy''),
                                    (''uptime'', JNumber (process_uptime w1))]
             then \<lparr>res_status = 304, res_body = Empty\<rparr>
             else \<lparr>res_status = 200,
                   res_body = Json [(''status'', JString ''healthy''),
                                    (''uptime'', JNumber (process_uptime w1))]\<rparr>), w1)"
    by (rule serve_GET_health [OF assms(1,2)])
  show "serve JSON_parses req2 w2 =
       ((case express_json JSON_parses req2 of
           Some e \<Rightarrow> \<lparr>res_status = final_status e, res_body = ErrorPage\<rparr>
         | None \<Rightarrow>
             if req_fresh_for req2 [(''status'', JString ''healthy''),
                                    (''uptime'', JNumber (process_uptime w2))]
             then \<lparr>res_status = 304, res_body = Empty\<rparr>
             else \<lparr>res_status = 200,
                   res_body = Json [(''status'', JString ''healthy''),
                                    (''uptime'', JNumber (process_uptime w2))]\<rparr>), w2)"
    by (rule serve_GET_health [OF assms(3,4)])
  show "process_start (run JSON_parses es w1) = process_start w1"
    using run_fields [of JSON_parses es w1] by simp
  show "mono_clock w1 \<le> mono_clock (run JSON_parses es w1)" by (rule run_clock)
qed

theorem uptime_monotone_witness:
  "req_method (plain_request ''GET'' ''/health'') = ''GET'' \<and>
   req_path (plain_request ''GET'' ''/health'') = ''/health'' \<and>
   process_start (startup Map.empty 100 0) =
     process_start (run (\<lambda>s. s = ''{}'') [Tick 1500000000 3] (startup Map.empty 100 0)) \<and>
   mono_clock (startup Map.empty 100 0) \<le>
     mono_clock (run (\<lambda>s. s = ''{}'') [Tick 1500000000 3] (startup Map.empty 100 0)) \<and>
   (\<exists>u1 u2. u1 \<le> u2 \<and>
     serve (\<lambda>s. s = ''{}'') (plain_request ''GET'' ''/health'') (startup Map.empty 100 0) =
       (\<lparr>res_status = 200,
         res_body = Json [(''status'', JString ''healthy''), (''uptime'', JNumber u1)]\<rparr>,
        startup Map.empty 100 0) \<and>
     serve (\<lambda>s. s = ''{}'') (plain_request ''GET'' ''/health'')
         (run (\<lambda>s. s = ''{}'') [Tick 1500000000 3] (startup Map.empty 100 0)) =
       (\<lparr>res_status = 200,
         res_body = Json [(''status'', JString ''healthy''), (''uptime'', JNumber u2)]\<rparr>,
        run (\<lambda>s. s = ''{}'') [Tick 1500000000 3] (startup Map.empty 100 0)))"
proof -
  let ?r = "plain_request ''GET'' ''/health''"
  let ?w1 = "startup Map.empty 100 0"
  let ?w2 = "run (\<lambda>s. s = ''{}'') [Tick 1500000000 3] (startup Map.empty 100 0)"
  have m: "req_method ?r = ''GET''" and q: "req_path ?r = ''/health''"
    by (simp_all add: plain_request_def)
  have s: "process_start ?w1 = process_start ?w2" and c: "mono_clock ?w1 \<le> mono_clock ?w2"
    by (simp_all add: startup_def)
  have e: "express_json (\<lambda>s. s = ''{}'') ?r = None" "\<not> req_fresh_for ?r obj" for obj
    by (simp_all add: plain_request_def express_json_def)
  from uptime_monotone [OF m q m q s c, of "\<lambda>s. s = ''{}''" "[]"]
  have "\<exists>u1 u2. u1 \<le> u2 \<and>
     serve (\<lambda>s. s = ''{}'') ?r ?w1 =
       (\<lparr>res_status = 200,
         res_body = Json [(''status'', JString ''healthy''), (''uptime'', JNumber u1)]\<rparr>, ?w1) \<and>
     serve (\<lambda>s. s = ''{}'') ?r ?w2 =
       (\<lparr>res_status = 200,
         res_body = Json [(''status'', JString ''healthy''), (''uptime'', JNumber u2)]\<rparr>, ?w2)"
    by (simp only: e option.case if_False) blast
  with m q s c show ?thesis by blast
qed

text \<open>
  C5, as stated, is false: a \<open>HEAD\<close> request for \<open>/\<close> is not a \<open>GET\<close> request, and the
  route registered with \<open>app.get\<close> answers it with status 200.
\<close>

theorem head_root_200:
  "req_method (plain_request ''HEAD'' ''/'') \<noteq> ''GET'' \<and>
   fst (serve (\<lambda>s. s = ''{}'') (plain_request ''HEAD'' ''/'') (startup Map.empty 0 0)) =
     \<lparr>res_status = 200, res_body = Empty\<rparr>"
proof -
  have "toISOString (TimeClip 0) = Inr ''1970-01-01T00:00:00.000Z''" by code_simp
  then have "root_handler (plain_request ''HEAD'' ''/'') (startup Map.empty 0 0) =
      (Inr (res_json [(''message'', JString ''Welcome to Node.js Demo App!''),
                      (''status'', JString ''success''),
                      (''timestamp'', JString ''1970-01-01T00:00:00.000Z'')]),
       startup Map.empty 0 0)"
    by (simp add: root_handler_def new_Date_def startup_def)
  then show ?thesis
    by (simp add: serve_def app_stack match_root handles_get lower_root lower_HEAD
        plain_request_def express_json_def send_def res_json_def Let_def del: list.map)
qed

text \<open>
  C5, amended. A request that the JSON body parser lets through is answered with
  status 404 exactly when its path is neither \<open>/\<close> nor \<open>/health\<close> (compared without
  regard to letter case and to one trailing slash) or its method is none of \<open>GET\<close>,
  \<open>HEAD\<close> and \<open>OPTIONS\<close>. The 404 answer carries the error page, and no body when the
  method is \<open>HEAD\<close>.
\<close>

theorem unrouted_404:
  assumes "express_json JSON_parses req = None"
  shows "(map lower_char (req_path req) \<notin> {''/'', [], ''/health'', ''/health/''} \<or>
          (map lower_char (req_method req) \<notin> {''get'', ''head''} \<and>
           req_method req \<noteq> ''OPTIONS'') \<longrightarrow>
          serve JSON_parses req w =
            (\<lparr>res_status = 404,
              res_body = (if req_method req = ''HEAD'' then Empty else ErrorPage)\<rparr>, w)) \<and>
         (\<not> (map lower_char (req_path req) \<notin> {''/'', [], ''/health'', ''/health/''} \<or>
             (map lower_char (req_method req) \<notin> {''get'', ''head''} \<and>
              req_method req \<noteq> ''OPTIONS'')) \<longrightarrow>
          res_status (fst (serve JSON_parses req w)) \<noteq> 404)"
proof (intro conjI impI)
  assume "map lower_char (req_path req) \<notin> {''/'', [], ''/health'', ''/health/''} \<or>
          (map lower_char (req_method req) \<notin> {''get'', ''head''} \<and>
           req_method req \<noteq> ''OPTIONS'')"
  then show "serve JSON_parses req w =
            (\<lparr>res_status = 404,
              res_body = (if req_method req = ''HEAD'' then Empty else ErrorPage)\<rparr>, w)"
  proof
    assume "map lower_char (req_path req) \<notin> {''/'', [], ''/health'', ''/health/''}"
    then have "\<not> match_path ''/'' (req_path req)" "\<not> match_path ''/health'' (req_path req)"
      by (simp_all add: match_root match_health)
    then show ?thesis
      using assms by (simp add: serve_def app_stack finalhandler_def error_body_def)
  next
    assume "map lower_char (req_method req) \<notin> {''get'', ''head''} \<and>
      req_method req \<noteq> ''OPTIONS''"
    then have "\<not> handles_method ''get'' (req_method req)" "req_method req \<noteq> ''OPTIONS''"
      by (simp_all add: handles_get)
    then show ?thesis
      using assms by (simp add: serve_def app_stack finalhandler_def error_body_def)
  qed
next
  assume "\<not> (map lower_char (req_path req) \<notin> {''/'', [], ''/health'', ''/health/''} \<or>
             (map lower_char (req_method req) \<notin> {''get'', ''head''} \<and>
              req_method req \<noteq> ''OPTIONS''))"
  then have p: "match_path ''/'' (req_path req) \<or> match_path ''/health'' (req_path req)"
    and m: "handles_method ''get'' (req_method req) \<or> req_method req = ''OPTIONS''"
    by (auto simp add: match_root match_health handles_get)
  obtain a where a: "root_handler req w = (a, w)"
    using root_handler_world [of req w] by (cases "root_handler req w") simp
  have h: "health_handler req w =
      (Inr (res_json [(''status'', JString ''healthy''),
                      (''uptime'', JNumber (process_uptime w))]), w)"
    by (simp add: health_handler_def)
  have s: "res_status (send req r) \<noteq> 404" if "reply_status r = 200" for r
    using that by (simp add: send_def Let_def)
  have r200: "reply_status r = 200" if "root_handler req w = (Inr r, w)" for r
    using that by (auto simp add: root_handler_def res_json_def split: sum.splits)
  have o: "\<not> handles_method ''get'' ''OPTIONS''"
    by (simp add: handles_get lower_OPTIONS del: list.map)
  show "res_status (fst (serve JSON_parses req w)) \<noteq> 404"
  proof (cases "handles_method ''get'' (req_method req)")
    case True
    show ?thesis
    proof (cases "match_path ''/'' (req_path req)")
      case root: True
      show ?thesis
      proof (cases a)
        case (Inl e)
        then show ?thesis
          using assms True root a
          by (simp add: serve_def app_stack handle_pending finalhandler_def)
      next
        case (Inr r)
        then show ?thesis
          using assms True root a s [OF r200 [of r]]
          by (simp add: serve_def app_stack)
      qed
    next
      case False
      then have "match_path ''/health'' (req_path req)" using p by simp
      then show ?thesis
        using assms True False h s [of "res_json obj" for obj]
        by (simp add: serve_def app_stack res_json_def)
    qed
  next
    case False
    then have opt: "req_method req = ''OPTIONS''" using m by simp
    show ?thesis
      using assms p o opt
      by (auto simp add: serve_def app_stack finalhandler_def route_options_def)
  qed
qed

theorem unrouted_404_witness:
  "express_json (\<lambda>s. s = ''{}'') (plain_request ''GET'' ''/nonexistent'') = None \<and>
   map lower_char (req_path (plain_request ''GET'' ''/nonexistent''))
     \<notin> {''/'', [], ''/health'', ''/health/''} \<and>
   serve (\<lambda>s. s = ''{}'') (plain_request ''GET'' ''/nonexistent'') (startup Map.empty 0 0) =
     (\<lparr>res_status = 404, res_body = ErrorPage\<rparr>, startup Map.empty 0 0) \<and>
   express_json (\<lambda>s. s = ''{}'') (plain_request ''OPTIONS'' ''/health'') = None \<and>
   map lower_char (req_path (plain_request ''OPTIONS'' ''/health''))
     \<in> {''/'', [], ''/health'', ''/health/''} \<and>
   req_method (plain_request ''OPTIONS'' ''/health'') = ''OPTIONS'' \<and>
   res_status (fst (serve (\<lambda>s. s = ''{}'') (plain_request ''OPTIONS'' ''/health'')
     (startup Map.empty 0 0))) \<noteq> 404"
proof -
  let ?g = "plain_request ''GET'' ''/nonexistent''"
  let ?o = "plain_request ''OPTIONS'' ''/health''"
  have a: "express_json (\<lambda>s. s = ''{}'') ?g = None"
    by (simp add: express_json_def plain_request_def)
  have "map lower_char ''/nonexistent'' = ''/nonexistent''" by code_simp
  then have b: "map lower_char (req_path ?g) \<notin> {''/'', [], ''/health'', ''/health/''}"
    by (simp add: plain_request_def del: list.map)
  have c: "express_json (\<lambda>s. s = ''{}'') ?o = None"
    by (simp add: express_json_def plain_request_def)
  have d: "map lower_char (req_path ?o) \<in> {''/'', [], ''/health'', ''/health/''}"
    by (simp add: plain_request_def lower_health del: list.map)
  have e: "req_method ?o = ''OPTIONS''" by (simp add: plain_request_def)
  from unrouted_404 [OF a, of "startup Map.empty 0 0"] b
  have 1: "serve (\<lambda>s. s = ''{}'') ?g (startup Map.empty 0 0) =
     (\<lparr>res_status = 404, res_body = ErrorPage\<rparr>, startup Map.empty 0 0)"
    by (simp add: plain_request_def)
  from unrouted_404 [OF c, of "startup Map.empty 0 0"] d e
  have 2: "res_status (fst (serve (\<lambda>s. s = ''{}'') ?o (startup Map.empty 0 0))) \<noteq> 404"
    by blast
  from a b 1 c d e 2 show ?thesis by blast
qed

text \<open>
  C6, as stated, is false: with \<open>PORT=abc\<close>, which does not parse as a port number,
  the value handed to \<open>app.listen\<close> is the string \<open>abc\<close> and not 3000.
\<close>

theorem port_unparseable:
  "\<not> parses_as_port ''abc'' \<and>
   PORT (Map.empty(''PORT'' \<mapsto> ''abc'')) = Str ''abc'' \<and>
   listen_port (startup (Map.empty(''PORT'' \<mapsto> ''abc'')) 0 0) \<noteq> Num 3000"
  by (simp add: parses_as_port_def is_digit_def PORT_def js_or_def env_get_def startup_def)

text \<open>
  C6, amended. The value handed to \<open>app.listen\<close> is chosen by the one variable
  \<open>PORT\<close>: it is the number 3000 when the variable is unset or empty, and otherwise
  the variable's string as it stands, with no parsing and no fallback.
\<close>

theorem port_default:
  "PORT env =
     (case env ''PORT'' of None \<Rightarrow> Num 3000 | Some s \<Rightarrow> if s = [] then Num 3000 else Str s) \<and>
   listen_port (startup env t0 wall) = PORT env"
  by (simp add: PORT_def js_or_def env_get_def startup_def split: option.split)

text \<open>
  C7, as stated, is false: the response does depend on the request's body and
  headers. Of three \<open>GET /\<close> requests handled in the same state, the plain one is
  answered 200, the one with a malformed JSON body 400, and the one whose cache
  validator matches 304.
\<close>

theorem body_and_headers_matter:
  "res_status (fst (serve (\<lambda>s. s = ''{}'') (plain_request ''GET'' ''/'')
      (startup Map.empty 0 0))) = 200 \<and>
   res_status (fst (serve (\<lambda>s. s = ''{}'')
      ((plain_request ''GET'' ''/'')
         \<lparr>req_entity := Some \<lparr>media_type = ''application/json'', charset = [],
                               delivered = Read_text ''{bad''\<rparr>\<rparr>)
      (startup Map.empty 0 0))) = 400 \<and>
   res_status (fst (serve (\<lambda>s. s = ''{}'')
      ((plain_request ''GET'' ''/'')\<lparr>req_fresh_for := (\<lambda>obj. True)\<rparr>)
      (startup Map.empty 0 0))) = 304"
proof -
  have "toISOString (TimeClip 0) = Inr ''1970-01-01T00:00:00.000Z''" by code_simp
  then have h: "root_handler req (startup Map.empty 0 0) =
      (Inr (res_json [(''message'', JString ''Welcome to Node.js Demo App!''),
                      (''status'', JString ''success''),
                      (''timestamp'', JString ''1970-01-01T00:00:00.000Z'')]),
       startup Map.empty 0 0)" for req
    by (simp add: root_handler_def new_Date_def startup_def)
  show ?thesis
    by (simp add: serve_GET_root [OF _ _ h] plain_request_def express_json_def first_char_def
        is_json_space_def)
qed

text \<open>
  C7, amended. The replies the two handlers build are functions of the clock
  readings and the start value alone: they ignore the request altogether. The
  response sent is a function of the wall-clock reading, the clock reading behind
  the uptime, the start value, and four things in the request: its method, its path,
  its cache validators and the verdict of the JSON body parser on its body. Any two
  requests that agree on these four, handled at equal clock readings and with an
  equal start value, get identical responses; the query string, the other headers,
  the content of an accepted body and the rest of the state have no effect.
\<close>

theorem response_noninterference:
  "(wall_clock w1 = wall_clock w2 \<longrightarrow>
      fst (root_handler req1 w1) = fst (root_handler req2 w2)) \<and>
   (mono_clock w1 = mono_clock w2 \<and> process_start w1 = process_start w2 \<longrightarrow>
      fst (health_handler req1 w1) = fst (health_handler req2 w2)) \<and>
   (wall_clock w1 = wall_clock w2 \<and> mono_clock w1 = mono_clock w2 \<and>
    process_start w1 = process_start w2 \<and>
    req_method req1 = req_method req2 \<and> req_path req1 = req_path req2 \<and>
    req_fresh_for req1 = req_fresh_for req2 \<and>
    express_json JSON_parses req1 = express_json JSON_parses req2 \<longrightarrow>
      fst (serve JSON_parses req1 w1) = fst (serve JSON_parses req2 w2))"
proof (intro conjI impI)
  assume "wall_clock w1 = wall_clock w2"
  then show "fst (root_handler req1 w1) = fst (root_handler req2 w2)"
    by (simp add: root_handler_def new_Date_def split: sum.split)
next
  assume "mono_clock w1 = mono_clock w2 \<and> process_start w1 = process_start w2"
  then show "fst (health_handler req1 w1) = fst (health_handler req2 w2)"
    by (simp add: health_handler_def process_uptime_def)
next
  assume a: "wall_clock w1 = wall_clock w2 \<and> mono_clock w1 = mono_clock w2 \<and>
    process_start w1 = process_start w2 \<and>
    req_method req1 = req_method req2 \<and> req_path req1 = req_path req2 \<and>
    req_fresh_for req1 = req_fresh_for req2 \<and>
    express_json JSON_parses req1 = express_json JSON_parses req2"
  obtain x where r1: "root_handler req1 w1 = (x, w1)"
    using root_handler_world [of req1 w1] by (cases "root_handler req1 w1") simp
  have "fst (root_handler req1 w1) = fst (root_handler req2 w2)"
    using a by (simp add: root_handler_def new_Date_def split: sum.split)
  then have r2: "root_handler req2 w2 = (x, w2)"
    using r1 root_handler_world [of req2 w2] by (cases "root_handler req2 w2") simp
  obtain y where h1: "health_handler req1 w1 = (Inr y, w1)"
    by (simp add: health_handler_def)
  have h2: "health_handler req2 w2 = (Inr y, w2)"
    using a h1 by (simp add: health_handler_def process_uptime_def)
  have s: "send req1 = send req2"
    using a by (simp add: send_def fun_eq_iff)
  have f: "finalhandler err opts req1 = finalhandler err opts req2" for err opts
    using a by (simp add: finalhandler_def error_body_def split: option.split)
  show "fst (serve JSON_parses req1 w1) = fst (serve JSON_parses req2 w2)"
    using a
    by (cases x)
      (simp_all add: serve_def app_stack r1 r2 h1 h2 s f handle_pending)
qed

theorem response_noninterference_witness:
  "wall_clock (startup Map.empty 55 1700000000000) =
     wall_clock (startup (Map.empty(''PORT'' \<mapsto> ''8080'')) 55 1700000000000) \<and>
   mono_clock (startup Map.empty 55 1700000000000) =
     mono_clock (startup (Map.empty(''PORT'' \<mapsto> ''8080'')) 55 1700000000000) \<and>
   process_start (startup Map.empty 55 1700000000000) =
     process_start (startup (Map.empty(''PORT'' \<mapsto> ''8080'')) 55 1700000000000) \<and>
   express_json (\<lambda>s. s = ''{}'') (plain_request ''GET'' ''/health'') =
     express_json (\<lambda>s. s = ''{}'')
       ((plain_request ''GET'' ''/health'')
          \<lparr>req_query := ''a=1'', req_headers := [(''x-test'', ''1'')],
           req_entity := Some \<lparr>media_type = ''application/json'', charset = [],
                                delivered = Read_text ''{}''\<rparr>\<rparr>) \<and>
   fst (serve (\<lambda>s. s = ''{}'') (plain_request ''GET'' ''/health'')
          (startup Map.empty 55 1700000000000)) =
     fst (serve (\<lambda>s. s = ''{}'')
       ((plain_request ''GET'' ''/health'')
          \<lparr>req_query := ''a=1'', req_headers := [(''x-test'', ''1'')],
           req_entity := Some \<lparr>media_type = ''application/json'', charset = [],
                                delivered = Read_text ''{}''\<rparr>\<rparr>)
       (startup (Map.empty(''PORT'' \<mapsto> ''8080'')) 55 1700000000000))"
proof -
  let ?w1 = "startup Map.empty 55 1700000000000"
  let ?w2 = "startup (Map.empty(''PORT'' \<mapsto> ''8080'')) 55 1700000000000"
  let ?r1 = "plain_request ''GET'' ''/health''"
  let ?r2 = "(plain_request ''GET'' ''/health'')
          \<lparr>req_query := ''a=1'', req_headers := [(''x-test'', ''1'')],
           req_entity := Some \<lparr>media_type = ''application/json'', charset = [],
                                delivered = Read_text ''{}''\<rparr>\<rparr>"
  have a: "wall_clock ?w1 = wall_clock ?w2" and b: "mono_clock ?w1 = mono_clock ?w2"
    and c: "process_start ?w1 = process_start ?w2"
    by (simp_all add: startup_def)
  have d: "req_method ?r1 = req_method ?r2" and e: "req_path ?r1 = req_path ?r2"
    and f: "req_fresh_for ?r1 = req_fresh_for ?r2"
    by (simp_all add: plain_request_def)
  have g: "express_json (\<lambda>s. s = ''{}'') ?r1 = express_json (\<lambda>s. s = ''{}'') ?r2"
    by (simp add: plain_request_def express_json_def first_char_def is_json_space_def)
  from response_noninterference [of ?w1 ?w2 ?r1 ?r2 "\<lambda>s. s = ''{}''"] a b c d e f g
  have "fst (serve (\<lambda>s. s = ''{}'') ?r1 ?w1) = fst (serve (\<lambda>s. s = ''{}'') ?r2 ?w2)"
    by blast
  with a b c g show ?thesis by blast
qed




text \<open>
  C9. The two handlers always answer and never fail: for every request each of
  them returns a reply, not an exception, and leaves the state as it was (the
  \<open>/\<close> handler under the assumption that the wall clock shows a time in the range of
  \<open>Date\<close>, the only condition under which \<open>toISOString\<close> could throw). Serving a request
  never changes the state, and the start value and the listen port are the same
  after any sequence of ticks and requests.
\<close>

theorem handlers_total:
  assumes "\<bar>wall_clock w\<bar> \<le> 8640000000000000"
  shows "(\<exists>r. root_handler req w = (Inr r, w)) \<and>
         (\<exists>r. health_handler req w = (Inr r, w)) \<and>
         snd (serve JSON_parses req w) = w \<and>
         process_start (run JSON_parses es w) = process_start w \<and>
         listen_port (run JSON_parses es w) = listen_port w"
proof -
  from root_handler_valid [OF assms, of req] have "\<exists>r. root_handler req w = (Inr r, w)"
    by blast
  moreover have "\<exists>r. health_handler req w = (Inr r, w)"
    by (simp add: health_handler_def)
  ultimately show ?thesis
    using serve_world [of JSON_parses req w] run_fields [of JSON_parses es w] by blast
qed

theorem handlers_total_witness:
  "\<bar>wall_clock (startup Map.empty 7 1700000000000)\<bar> \<le> 8640000000000000 \<and>
   (\<exists>r. root_handler (plain_request ''GET'' ''/'') (startup Map.empty 7 1700000000000) =
      (Inr r, startup Map.empty 7 1700000000000)) \<and>
   (\<exists>r. health_handler (plain_request ''GET'' ''/health'')
      (startup Map.empty 7 1700000000000) = (Inr r, startup Map.empty 7 1700000000000)) \<and>
   process_start (run (\<lambda>s. s = ''{}'')
     [Request (plain_request ''GET'' ''/''), Tick 5 1700000000001,
      Request (plain_request ''POST'' ''/health'')]
     (startup Map.empty 7 1700000000000)) = 7"
proof -
  have a: "\<bar>wall_clock (startup Map.empty 7 1700000000000)\<bar> \<le> 8640000000000000"
    by (simp add: startup_def)
  have s: "process_start (startup Map.empty 7 1700000000000) = 7" by (simp add: startup_def)
  from handlers_total [OF a, of "plain_request ''GET'' ''/''" "\<lambda>s. s = ''{}''"
      "[Request (plain_request ''GET'' ''/''), Tick 5 1700000000001,
        Request (plain_request ''POST'' ''/health'')]"]
    handlers_total [OF a, of "plain_request ''GET'' ''/health''" "\<lambda>s. s = ''{}''" "[]"]
  show ?thesis using a unfolding s by blast
qed

text \<open>
  C10, as stated, is false for the status: a \<open>GET /\<close> request whose body is declared
  as \<open>application/json; charset=iso-8859-1\<close> and holds malformed JSON is refused by
  the body parser with status 415, not 400.
\<close>

theorem latin1_body_415:
  "\<not> (\<lambda>s. s = ''{}'') ''{bad'' \<and>
   fst (serve (\<lambda>s. s = ''{}'')
     ((plain_request ''GET'' ''/'')
        \<lparr>req_entity := Some \<lparr>media_type = ''application/json'', charset = ''iso-8859-1'',
                              delivered = Read_text ''{bad''\<rparr>\<rparr>)
     (startup Map.empty 0 0)) =
     \<lparr>res_status = 415, res_body = ErrorPage\<rparr>"
  by (simp add: serve_def app_stack handle_pending finalhandler_def error_body_def
      express_json_def plain_request_def)

text \<open>
  C10, amended. A request whose body is declared as \<open>application/json\<close>, was read in
  full and holds text that is not empty and that \<open>JSON.parse\<close> does not accept is
  refused by the body parser and reaches no route handler, whatever handlers are
  registered after the parser: the status is 400 when the declared charset is absent
  or starts with \<open>utf-\<close>, and 415 when it is another charset. The answer carries the
  error page (no body when the method is \<open>HEAD\<close>).
\<close>

theorem malformed_json_rejected:
  assumes "req_entity req = Some e" and "media_type e = ''application/json''"
    and "delivered e = Read_text s" and "s \<noteq> []" and "\<not> JSON_parses s"
  shows "handle (Use (express_json JSON_parses) # stack) None [] req w =
      (\<lparr>res_status =
          (if take 4 (if charset e = [] then ''utf-8'' else charset e) = ''utf-''
           then 400 else 415),
        res_body = (if req_method req = ''HEAD'' then Empty else ErrorPage)\<rparr>, w) \<and>
    serve JSON_parses req w =
      (\<lparr>res_status =
          (if take 4 (if charset e = [] then ''utf-8'' else charset e) = ''utf-''
           then 400 else 415),
        res_body = (if req_method req = ''HEAD'' then Empty else ErrorPage)\<rparr>, w)"
proof -
  have "express_json JSON_parses req =
      Some (Http_error
        (if take 4 (if charset e = [] then ''utf-8'' else charset e) = ''utf-''
         then 400 else 415))"
    using assms by (simp add: express_json_def)
  then show ?thesis
    by (simp add: serve_def app_stack handle_pending finalhandler_def error_body_def)
qed

theorem malformed_json_rejected_witness:
  "req_entity ((plain_request ''GET'' ''/health'')
      \<lparr>req_entity := Some \<lparr>media_type = ''application/json'', charset = [],
                            delivered = Read_text ''{bad''\<rparr>\<rparr>) =
     Some \<lparr>media_type = ''application/json'', charset = [], delivered = Read_text ''{bad''\<rparr> \<and>
   ''{bad'' \<noteq> [] \<and> \<not> (\<lambda>s. s = ''{}'') ''{bad'' \<and>
   serve (\<lambda>s. s = ''{}'')
     ((plain_request ''GET'' ''/health'')
        \<lparr>req_entity := Some \<lparr>media_type = ''application/json'', charset = [],
                              delivered = Read_text ''{bad''\<rparr>\<rparr>)
     (startup Map.empty 0 0) =
     (\<lparr>res_status = 400, res_body = ErrorPage\<rparr>, startup Map.empty 0 0)"
proof -
  let ?e = "\<lparr>media_type = ''application/json'', charset = [], delivered = Read_text ''{bad''\<rparr>"
  let ?r = "(plain_request ''GET'' ''/health'')\<lparr>req_entity := Some ?e\<rparr>"
  have a: "req_entity ?r = Some ?e" by (simp add: plain_request_def)
  have b: "media_type ?e = ''application/json''" by simp
  have c: "delivered ?e = Read_text ''{bad''" by simp
  have d: "''{bad'' \<noteq> []" by simp
  have f: "\<not> (\<lambda>s. s = ''{}'') ''{bad''" by simp
  have g: "req_method ?r = ''GET''" by (simp add: plain_request_def)
  from malformed_json_rejected [where req = ?r and e = ?e and s = "''{bad''"
      and JSON_parses = "\<lambda>s. s = ''{}''" and stack = "[]" and w = "startup Map.empty 0 0"]
    a b c d f
  have "serve (\<lambda>s. s = ''{}'') ?r (startup Map.empty 0 0) =
     (\<lparr>res_status = 400, res_body = ErrorPage\<rparr>, startup Map.empty 0 0)"
    by (simp add: g)
  with a d f show ?thesis by blast
qed

end
